theory Spec2Isabelle
  imports Main
begin

section \<open>Exceptions, files and paths\<close>

text \<open>
  Python exceptions are values: a class and the text that \<^verbatim>\<open>str(e)\<close> gives.
  Only the classes that the sources and the library calls they make tell apart are
  named; \<open>OtherError\<close> is any other subclass of \<^verbatim>\<open>Exception\<close>.
\<close>

datatype exn_kind =
    ImportError | ModuleNotFoundError
  | FileNotFoundError | FileExistsError | NotADirectoryError | IsADirectoryError
  | RuntimeError | ValueError | NameError | OtherError

datatype exn = Exn exn_kind string

fun exn_kind_of :: "exn \<Rightarrow> exn_kind" where
  "exn_kind_of (Exn k m) = k"

fun exn_str :: "exn \<Rightarrow> string" where
  "exn_str (Exn k m) = m"

text \<open>
  One entry of the registry: the dictionary \<^verbatim>\<open>{'model_dir': ..., 'display_name': ...}\<close>
  that \<^verbatim>\<open>add_voice\<close> stores. Such a dictionary is never empty, so where the sources
  test an entry for truth they test that it is there.
\<close>

record voice =
  model_dir :: string
  display_name :: string

text \<open>
  Audio samples are opaque to the orchestration layer. A regular file holds raw bytes,
  text, or samples written by the audio library at a sample rate.
\<close>

type_synonym audio = "int list"

datatype file_content =
    Bytes "nat list"
  | Text string
  | Audio audio nat

subsection \<open>The file system\<close>

text \<open>
  A POSIX file system without links: a tree of directories and regular files. A node is
  found by its location, the list of names from the root; the root itself is always a
  directory. The working directory of the process is a location too.
\<close>

datatype node = Dir | File file_content

record filesystem =
  cwd :: "string list"
  nodes :: "string list \<rightharpoonup> node"

datatype errno = ENOENT | ENOTDIR | EISDIR | EEXIST

text \<open>A failed system call: the error number and the path given to the call.\<close>

type_synonym os_error = "errno \<times> string"

definition is_dir_at :: "filesystem \<Rightarrow> string list \<Rightarrow> bool" where
  "is_dir_at fsys loc = (loc = [] \<or> nodes fsys loc = Some Dir)"

text \<open>The components of a path string, split at every slash.\<close>

fun split_path :: "string \<Rightarrow> string list" where
  "split_path [] = [[]]"
| "split_path (c # cs) =
     (if c = CHR ''/'' then [] # split_path cs
      else (case split_path cs of [] \<Rightarrow> [[c]] | x # xs \<Rightarrow> (c # x) # xs))"

text \<open>
  Path resolution as the kernel does it: every component is taken from a location that
  must be a directory; an empty component and \<open>.\<close> stay there, \<open>..\<close> goes up, a name
  goes down, whether or not anything is there yet.
\<close>

fun walk :: "filesystem \<Rightarrow> string list \<Rightarrow> string list \<Rightarrow> errno + string list" where
  "walk fsys cur [] = Inr cur"
| "walk fsys cur (c # cs) =
     (if \<not> is_dir_at fsys cur then
        Inl (if nodes fsys cur = None then ENOENT else ENOTDIR)
      else if c = [] \<or> c = ''.'' then walk fsys cur cs
      else if c = ''..'' then walk fsys (butlast cur) cs
      else walk fsys (cur @ [c]) cs)"

definition resolve :: "filesystem \<Rightarrow> string \<Rightarrow> errno + string list" where
  "resolve fsys p =
     (if p = [] then Inl ENOENT
      else walk fsys (if hd p = CHR ''/'' then [] else cwd fsys) (split_path p))"

definition stat :: "filesystem \<Rightarrow> string \<Rightarrow> node option" where
  "stat fsys p =
     (case resolve fsys p of
        Inl e \<Rightarrow> None
      | Inr loc \<Rightarrow> if loc = [] then Some Dir else nodes fsys loc)"

text \<open>\<^verbatim>\<open>os.path.exists\<close>, \<^verbatim>\<open>Path.exists\<close> and \<^verbatim>\<open>Path.is_dir\<close>.\<close>

definition exists :: "filesystem \<Rightarrow> string \<Rightarrow> bool" where
  "exists fsys p = (stat fsys p \<noteq> None)"

definition is_dir :: "filesystem \<Rightarrow> string \<Rightarrow> bool" where
  "is_dir fsys p = (stat fsys p = Some Dir)"

text \<open>
  \<^verbatim>\<open>open(p, 'w')\<close> or \<^verbatim>\<open>open(p, 'wb')\<close>, the write and the close: the file is created or
  replaced, unless the path cannot be resolved or names a directory.
\<close>

definition write_file :: "filesystem \<Rightarrow> string \<Rightarrow> file_content \<Rightarrow> os_error + filesystem" where
  "write_file fsys p c =
     (case resolve fsys p of
        Inl e \<Rightarrow> Inl (e, p)
      | Inr loc \<Rightarrow>
          if is_dir_at fsys loc then Inl (EISDIR, p)
          else Inr (fsys\<lparr>nodes := (nodes fsys)(loc \<mapsto> File c)\<rparr>))"

text \<open>\<^verbatim>\<open>open(p, 'r')\<close> and reading all of the file.\<close>

definition read_file :: "filesystem \<Rightarrow> string \<Rightarrow> os_error + file_content" where
  "read_file fsys p =
     (case resolve fsys p of
        Inl e \<Rightarrow> Inl (e, p)
      | Inr loc \<Rightarrow>
          if is_dir_at fsys loc then Inl (EISDIR, p)
          else (case nodes fsys loc of
                  Some (File c) \<Rightarrow> Inr c
                | _ \<Rightarrow> Inl (ENOENT, p)))"

text \<open>\<^verbatim>\<open>os.mkdir(p)\<close>: one new directory, in a directory that exists.\<close>

definition os_mkdir :: "filesystem \<Rightarrow> string \<Rightarrow> os_error + filesystem" where
  "os_mkdir fsys p =
     (case resolve fsys p of
        Inl e \<Rightarrow> Inl (e, p)
      | Inr loc \<Rightarrow>
          if loc = [] \<or> nodes fsys loc \<noteq> None then Inl (EEXIST, p)
          else Inr (fsys\<lparr>nodes := (nodes fsys)(loc \<mapsto> Dir)\<rparr>))"

subsection \<open>pathlib\<close>

text \<open>
  A \<^verbatim>\<open>PurePosixPath\<close>: the root (empty, one slash, or exactly two) and the parts, from
  which empty components and \<open>.\<close> are dropped when the path is made from a string.
\<close>

record ppath =
  path_root :: string
  path_parts :: "string list"

definition root_of :: "string \<Rightarrow> string" where
  "root_of s =
     (if take 2 s = ''//'' \<and> take 3 s \<noteq> ''///'' then ''//''
      else if take 1 s = ''/'' then ''/''
      else [])"

definition Path :: "string \<Rightarrow> ppath" where
  "Path s =
     \<lparr>path_root = root_of s,
      path_parts = filter (\<lambda>c. c \<noteq> [] \<and> c \<noteq> ''.'') (split_path s)\<rparr>"

fun join_slash :: "string list \<Rightarrow> string" where
  "join_slash [] = []"
| "join_slash [x] = x"
| "join_slash (x # y # ys) = x @ ''/'' @ join_slash (y # ys)"

definition parts_str :: "string \<Rightarrow> string list \<Rightarrow> string" where
  "parts_str r ps = (if r = [] \<and> ps = [] then ''.'' else r @ join_slash ps)"

text \<open>\<^verbatim>\<open>str(p)\<close> and \<^verbatim>\<open>p.parent\<close>.\<close>

definition path_str :: "ppath \<Rightarrow> string" where
  "path_str p = parts_str (path_root p) (path_parts p)"

definition parent :: "ppath \<Rightarrow> ppath" where
  "parent p = (if path_parts p = [] then p else p\<lparr>path_parts := butlast (path_parts p)\<rparr>)"

text \<open>
  \<^verbatim>\<open>p.mkdir(parents=False, exist_ok=True)\<close>: a missing parent is an error; any other
  failure is forgiven when the path is a directory already.
\<close>

definition mkdir_leaf :: "filesystem \<Rightarrow> string \<Rightarrow> os_error option \<times> filesystem" where
  "mkdir_leaf fsys p =
     (case os_mkdir fsys p of
        Inr fsys' \<Rightarrow> (None, fsys')
      | Inl err \<Rightarrow>
          if fst err \<noteq> ENOENT \<and> is_dir fsys p then (None, fsys) else (Some err, fsys))"

text \<open>
  \<^verbatim>\<open>p.mkdir(parents=True, exist_ok=True)\<close>, by recursion on the parts, last part first:
  when a parent is missing the parent is made in the same way and the directory is
  tried once more. What the call has made before it fails stays.
\<close>

fun mkdir_rev :: "filesystem \<Rightarrow> string \<Rightarrow> string list \<Rightarrow> os_error option \<times> filesystem" where
  "mkdir_rev fsys r [] = mkdir_leaf fsys (parts_str r [])"
| "mkdir_rev fsys r (c # rest) =
     (let p = parts_str r (rev (c # rest)) in
      case os_mkdir fsys p of
        Inr fsys' \<Rightarrow> (None, fsys')
      | Inl err \<Rightarrow>
          if fst err = ENOENT then
            (case mkdir_rev fsys r rest of
               (Some e, fsys1) \<Rightarrow> (Some e, fsys1)
             | (None, fsys1) \<Rightarrow> mkdir_leaf fsys1 p)
          else if is_dir fsys p then (None, fsys)
          else (Some err, fsys))"

definition mkdir_parents :: "filesystem \<Rightarrow> ppath \<Rightarrow> os_error option \<times> filesystem" where
  "mkdir_parents fsys p = mkdir_rev fsys (path_root p) (rev (path_parts p))"

text \<open>\<^verbatim>\<open>os.getcwd()\<close> and \<^verbatim>\<open>Path(p).absolute()\<close> for a relative \<open>p\<close>, as strings.\<close>

definition getcwd :: "filesystem \<Rightarrow> string" where
  "getcwd fsys = ''/'' @ join_slash (cwd fsys)"

definition absolute :: "filesystem \<Rightarrow> string \<Rightarrow> string" where
  "absolute fsys p = (if cwd fsys = [] then ''/'' @ p else getcwd fsys @ ''/'' @ p)"

section \<open>What the modules take from outside\<close>

text \<open>
  A loaded engine is an object: two engines are the same instance iff they come from the
  same evaluation of \<^verbatim>\<open>SparkTTS(model_dir, device)\<close>, so the identity of an engine
  is the index of that evaluation among all of them.
\<close>

record engine =
  engine_id :: nat
  engine_model_dir :: string
  engine_device :: string

datatype infer_call =
    Clone string string string
  | Param string string string string

text \<open>
  What \<^verbatim>\<open>json.load\<close> returns: a dictionary of registry entries, or any other object that
  a JSON document can stand for (a list, a number, a dictionary of another shape).
\<close>

datatype pyobj = Registry "string \<rightharpoonup> voice" | NotARegistry

text \<open>
  The libraries and the platform, none of them code of this repository: the flags set
  at import time, the engine's constructor and its \<^verbatim>\<open>inference\<close> (either may raise),
  the audio library (its import may raise; its \<^verbatim>\<open>write\<close> may raise before it opens
  the file, has its own text for a file it cannot open, and once the file is open puts
  some content there and may still raise),
  \<^verbatim>\<open>traceback.format_exc\<close>, the text of an operating system error, and the JSON
  library: what \<^verbatim>\<open>json.dump(obj, f, indent=2)\<close> writes for a registry, and what
  \<^verbatim>\<open>json.load(f)\<close> makes of the content of a file (an object, or an exception).
\<close>

record externals =
  SPARK_TTS_AVAILABLE :: bool
  CUDA_AVAILABLE :: bool
  CUDA_DEVICE :: string
  SparkTTS :: "string \<Rightarrow> string \<Rightarrow> exn option"
  inference :: "engine \<Rightarrow> infer_call \<Rightarrow> exn + audio"
  import_soundfile :: "exn option"
  sf_check :: "audio \<Rightarrow> nat \<Rightarrow> exn option"
  sf_open_error :: "os_error \<Rightarrow> string"
  sf_data :: "audio \<Rightarrow> nat \<Rightarrow> file_content \<times> exn option"
  format_exc :: "exn \<Rightarrow> string"
  strerror :: "os_error \<Rightarrow> string"
  json_dump :: "(string \<rightharpoonup> voice) \<Rightarrow> file_content"
  json_load :: "file_content \<Rightarrow> exn + pyobj"

text \<open>The subclass of \<^verbatim>\<open>OSError\<close> that Python raises for a failed system call.\<close>

fun errno_kind :: "errno \<Rightarrow> exn_kind" where
  "errno_kind ENOENT = FileNotFoundError"
| "errno_kind ENOTDIR = NotADirectoryError"
| "errno_kind EISDIR = IsADirectoryError"
| "errno_kind EEXIST = FileExistsError"

definition OSError :: "externals \<Rightarrow> os_error \<Rightarrow> exn" where
  "OSError ext err = Exn (errno_kind (fst err)) (strerror ext err)"

section \<open>voice\_config.py: the registry\<close>

record voice_config =
  config_path :: string
  voices :: "string \<rightharpoonup> voice"

definition CONFIG_FILE :: string where
  "CONFIG_FILE = ''../config/voice_registry.json''"

text \<open>\<^verbatim>\<open>os.path.join(a, b)\<close> for a relative \<open>b\<close>.\<close>

definition os_path_join :: "string \<Rightarrow> string \<Rightarrow> string" where
  "os_path_join a b =
     (if a = [] then b else if last a = CHR ''/'' then a @ b else a @ ''/'' @ b)"


text \<open>\<^verbatim>\<open>_save_config\<close>: the whole mapping, written over the document; the write may fail.\<close>

definition save_config :: "externals \<Rightarrow> voice_config \<Rightarrow> filesystem \<Rightarrow> os_error + filesystem" where
  "save_config ext cfg fsys = write_file fsys (config_path cfg) (json_dump ext (voices cfg))"



text \<open>
  \<^verbatim>\<open>add_voice\<close>: the entry is stored in memory, then the document is saved. The first
  component is the exception that leaves the method, if any; the entry is in memory
  either way.
\<close>

definition add_voice ::
  "externals \<Rightarrow> string \<Rightarrow> string \<Rightarrow> string \<Rightarrow> voice_config \<times> filesystem
     \<Rightarrow> exn option \<times> voice_config \<times> filesystem" where
  "add_voice ext voice_id mdir dname s =
     (case s of (cfg, fsys) \<Rightarrow>
        (let cfg' = cfg\<lparr>voices := (voices cfg)(voice_id \<mapsto>
                          \<lparr>model_dir = mdir, display_name = dname\<rparr>)\<rparr>
         in case save_config ext cfg' fsys of
              Inl err \<Rightarrow> (Some (OSError ext err), cfg', fsys)
            | Inr fsys' \<Rightarrow> (None, cfg', fsys')))"

definition remove_voice ::
  "externals \<Rightarrow> string \<Rightarrow> voice_config \<times> filesystem
     \<Rightarrow> (exn + bool) \<times> voice_config \<times> filesystem" where
  "remove_voice ext voice_id s =
     (case s of (cfg, fsys) \<Rightarrow>
        if voice_id \<in> dom (voices cfg) then
          (let cfg' = cfg\<lparr>voices := (voices cfg)(voice_id := None)\<rparr>
           in case save_config ext cfg' fsys of
                Inl err \<Rightarrow> (Inl (OSError ext err), cfg', fsys)
              | Inr fsys' \<Rightarrow> (Inr True, cfg', fsys'))
        else (Inr False, cfg, fsys))"

definition get_voice :: "voice_config \<Rightarrow> string \<Rightarrow> voice option" where
  "get_voice cfg voice_id = voices cfg voice_id"

definition list_voices :: "voice_config \<Rightarrow> (string \<rightharpoonup> voice)" where
  "list_voices cfg = voices cfg"

definition validate_voice :: "voice_config \<Rightarrow> filesystem \<Rightarrow> string \<Rightarrow> bool" where
  "validate_voice cfg fsys voice_id =
     (case get_voice cfg voice_id of
        None \<Rightarrow> False
      | Some v \<Rightarrow> exists fsys (model_dir v))"

section \<open>spark\_bridge.py: the engine cache\<close>

record voice_manager =
  device :: string
  tts_models :: "string \<rightharpoonup> engine"
  voice_config :: voice_config

text \<open>
  The state of one process: the global \<^verbatim>\<open>voice_manager\<close>, the file system, and two
  logs kept for the proofs only: every evaluation of \<^verbatim>\<open>SparkTTS(...)\<close> (by model
  directory) and every call of \<^verbatim>\<open>get_tts\<close> (by its argument).
\<close>

record world =
  manager :: voice_manager
  fs :: filesystem
  spark_calls :: "string list"
  get_tts_calls :: "string option list"

definition VoiceManager :: "externals \<Rightarrow> voice_config \<Rightarrow> voice_manager" where
  "VoiceManager ext cfg =
     \<lparr>device = (if CUDA_AVAILABLE ext then ''cuda'' else ''cpu''),
      tts_models = Map.empty,
      voice_config = cfg\<rparr>"

text \<open>\<^verbatim>\<open>str(Path("pretrained_models/Spark-TTS-0.5B").absolute())\<close>.\<close>

definition default_model_dir :: "filesystem \<Rightarrow> string" where
  "default_model_dir fsys = absolute fsys ''pretrained_models/Spark-TTS-0.5B''"

text \<open>
  Evaluating \<^verbatim>\<open>SparkTTS(model_dir, self.device)\<close>: \<open>None\<close> when the constructor
  returns, the exception when it raises. When the import at module level failed the name
  is unbound and the evaluation raises \<^verbatim>\<open>NameError\<close>. Each evaluation is logged, and
  the engine it returns is a new object.
\<close>

definition call_SparkTTS :: "externals \<Rightarrow> string \<Rightarrow> string \<Rightarrow> exn option" where
  "call_SparkTTS ext mdir dev =
     (if SPARK_TTS_AVAILABLE ext then SparkTTS ext mdir dev
      else Some (Exn NameError ''name 'SparkTTS' is not defined''))"

definition new_SparkTTS :: "externals \<Rightarrow> string \<Rightarrow> world \<Rightarrow> (exn + engine) \<times> world" where
  "new_SparkTTS ext mdir w =
     (let w' = w\<lparr>spark_calls := spark_calls w @ [mdir]\<rparr> in
      case call_SparkTTS ext mdir (device (manager w)) of
        Some e \<Rightarrow> (Inl e, w')
      | None \<Rightarrow>
          (Inr \<lparr>engine_id = length (spark_calls w), engine_model_dir = mdir,
                engine_device = device (manager w)\<rparr>, w'))"

definition store_engine :: "string \<Rightarrow> engine \<Rightarrow> world \<Rightarrow> world" where
  "store_engine key e w =
     w\<lparr>manager := (manager w)\<lparr>tts_models := (tts_models (manager w))(key \<mapsto> e)\<rparr>\<rparr>"

text \<open>The first branch of \<^verbatim>\<open>get_tts\<close>: the engine under the key \<open>default\<close>.\<close>

definition get_default :: "externals \<Rightarrow> world \<Rightarrow> (exn + engine) \<times> world" where
  "get_default ext w =
     (case tts_models (manager w) ''default'' of
        Some e \<Rightarrow> (Inr e, w)
      | None \<Rightarrow>
          (let mdir = default_model_dir (fs w) in
           if \<not> exists (fs w) mdir then
             (Inl (Exn FileNotFoundError
                (''Default model directory not found: '' @ mdir @
                 ''. Please run download_model.py first.'')), w)
           else
             (case new_SparkTTS ext mdir w of
                (Inl e, w') \<Rightarrow> (Inl e, w')
              | (Inr e, w') \<Rightarrow> (Inr e, store_engine ''default'' e w'))))"

text \<open>The second branch: a voice of the registry, loaded on first use.\<close>

definition get_registered :: "externals \<Rightarrow> string \<Rightarrow> voice \<Rightarrow> world \<Rightarrow> (exn + engine) \<times> world" where
  "get_registered ext voice_id v w =
     (case tts_models (manager w) voice_id of
        Some e \<Rightarrow> (Inr e, w)
      | None \<Rightarrow>
          if \<not> exists (fs w) (model_dir v) then
            (Inl (Exn FileNotFoundError
               (''Model directory for voice '' @ [CHR 0x27] @ voice_id @ [CHR 0x27] @
                '' not found: '' @ model_dir v)), w)
          else
            (case new_SparkTTS ext (model_dir v) w of
               (Inl e, w') \<Rightarrow>
                 (Inl (Exn RuntimeError
                    (''Failed to load model for voice '' @ [CHR 0x27] @ voice_id @ [CHR 0x27] @
                     '': '' @ exn_str e)), w')
             | (Inr e, w') \<Rightarrow> (Inr e, store_engine voice_id e w')))"

text \<open>
  \<^verbatim>\<open>get_tts\<close>: the registry is asked first, the cache second. The branches are the two
  functions above; the call itself is logged.
\<close>

definition get_tts :: "externals \<Rightarrow> string option \<Rightarrow> world \<Rightarrow> (exn + engine) \<times> world" where
  "get_tts ext voice_id w0 =
     (let w = w0\<lparr>get_tts_calls := get_tts_calls w0 @ [voice_id]\<rparr> in
      case voice_id of
        None \<Rightarrow> get_default ext w
      | Some vid \<Rightarrow>
          (case get_voice (voice_config (manager w)) vid of
             None \<Rightarrow> get_default ext w
           | Some v \<Rightarrow> get_registered ext vid v w))"

record voice_desc =
  desc_display_name :: string
  desc_model_dir :: string
  loaded :: bool
  valid :: bool

definition manager_list_voices :: "world \<Rightarrow> (string \<rightharpoonup> voice_desc)" where
  "manager_list_voices w =
     (let vm = manager w;
          result = (\<lambda>voice_id.
            case list_voices (voice_config vm) voice_id of
              None \<Rightarrow> None
            | Some details \<Rightarrow>
                Some \<lparr>desc_display_name = display_name details,
                      desc_model_dir = model_dir details,
                      loaded = (voice_id \<in> dom (tts_models vm)),
                      valid = exists (fs w) (model_dir details)\<rparr>)
      in if ''default'' \<notin> dom result then
           result(''default'' \<mapsto>
             \<lparr>desc_display_name = ''Default Voice'',
              desc_model_dir = default_model_dir (fs w),
              loaded = (''default'' \<in> dom (tts_models vm)),
              valid = exists (fs w) (default_model_dir (fs w))\<rparr>)
         else result)"

section \<open>spark\_bridge.py: the request pipeline\<close>

text \<open>
  The dictionaries returned to the caller. A key that a dictionary does not have is
  \<open>None\<close>; \<open>file\<close> is \<open>Some None\<close> where the source writes \<^verbatim>\<open>"file": None\<close>. The
  \<open>voice\<close> entry is \<open>Some None\<close> for the empty dictionary and otherwise holds
  \<^verbatim>\<open>voice_id\<close> and \<^verbatim>\<open>voice_name\<close>.
\<close>

record response =
  success :: bool
  message :: "string option"
  "file" :: "string option option"
  voice :: "(string \<times> string) option option"
  trace :: "string option"
  log_file :: "string option"
  voices_out :: "(string \<rightharpoonup> voice_desc) option"

definition NL :: string where
  "NL = [CHR 0x0A]"

text \<open>\<^verbatim>\<open>f"{x}"\<close> for an optional string: \<^verbatim>\<open>None\<close> prints as its name.\<close>

fun py_str :: "string option \<Rightarrow> string" where
  "py_str None = ''None''"
| "py_str (Some s) = s"

text \<open>Truth value of an optional string: \<^verbatim>\<open>None\<close> and the empty string are false.\<close>

fun truthy :: "string option \<Rightarrow> bool" where
  "truthy None = False"
| "truthy (Some s) = (s \<noteq> [])"

text \<open>The 44 bytes of the fallback file: a WAV header with an empty data chunk.\<close>

definition EMPTY_WAV :: "nat list" where
  "EMPTY_WAV =
     [82, 73, 70, 70, 36, 0, 0, 0, 87, 65, 86, 69, 102, 109, 116, 32,
      16, 0, 0, 0, 1, 0, 1, 0, 0, 4, 0, 0, 0, 4, 0, 0, 1, 0, 8, 0,
      100, 97, 116, 97, 0, 0, 0, 0]"

definition error_log_path :: string where
  "error_log_path = ''tts_error.log''"

definition truncate_trace :: "string \<Rightarrow> string" where
  "truncate_trace error_trace =
     (if length error_trace > 200 then take 200 error_trace @ ''...'' else error_trace)"

text \<open>
  The text of the diagnostic log. By now \<^verbatim>\<open>output_path\<close> is the \<^verbatim>\<open>Path\<close> object, so
  what is printed for it is its string.
\<close>

definition error_log_text ::
  "string \<Rightarrow> string option \<Rightarrow> string option \<Rightarrow> ppath \<Rightarrow> exn \<Rightarrow> string \<Rightarrow> string" where
  "error_log_text text voice_id custom_voice_path output_path e error_trace =
     ''Error processing text: '' @ text @ NL @
     ''Voice ID: '' @ py_str voice_id @ NL @
     ''Custom voice path: '' @ py_str custom_voice_path @ NL @
     ''Output path: '' @ path_str output_path @ NL @
     ''Exception: '' @ exn_str e @ NL @
     ''Traceback:'' @ NL @ error_trace"

text \<open>The \<^verbatim>\<open>with torch.no_grad()\<close> block up to the call of the engine.\<close>

definition run_inference ::
  "externals \<Rightarrow> engine \<Rightarrow> string \<Rightarrow> string option \<Rightarrow> filesystem \<Rightarrow> exn + audio" where
  "run_inference ext tts_engine text custom_voice_path fsys =
     (if truthy custom_voice_path then
        (let voice_path = Path (py_str custom_voice_path) in
         if \<not> exists fsys (path_str voice_path) then
           Inl (Exn FileNotFoundError
                  (''Voice file not found: '' @ py_str custom_voice_path))
         else inference ext tts_engine
                (Clone text (path_str voice_path) ''This is a sample voice.''))
      else inference ext tts_engine (Param text ''male'' ''moderate'' ''moderate''))"

text \<open>
  \<^verbatim>\<open>sf.write(str(output_path), wav, samplerate=16000)\<close> after the import of the library:
  an exception, or the file system with the audio file.
\<close>

definition sf_write ::
  "externals \<Rightarrow> filesystem \<Rightarrow> string \<Rightarrow> audio \<Rightarrow> nat \<Rightarrow> exn option \<times> filesystem" where
  "sf_write ext fsys p wav rate =
     (case sf_check ext wav rate of
        Some e \<Rightarrow> (Some e, fsys)
      | None \<Rightarrow>
          (case write_file fsys p (fst (sf_data ext wav rate)) of
             Inl err \<Rightarrow> (Some (Exn OtherError (sf_open_error ext err)), fsys)
           | Inr fsys' \<Rightarrow> (snd (sf_data ext wav rate), fsys')))"

definition voice_info_of :: "voice_config \<Rightarrow> string option \<Rightarrow> (string \<times> string) option" where
  "voice_info_of cfg voice_id =
     (if truthy voice_id then
        (case get_voice cfg (py_str voice_id) of
           None \<Rightarrow> None
         | Some vc \<Rightarrow> Some (py_str voice_id, display_name vc))
      else None)"

text \<open>The body of the \<^verbatim>\<open>try\<close> block: a response, or the exception that leaves it.\<close>

definition try_body ::
  "externals \<Rightarrow> string \<Rightarrow> string option \<Rightarrow> string option \<Rightarrow> ppath \<Rightarrow> world
     \<Rightarrow> (exn + response) \<times> world" where
  "try_body ext text voice_id custom_voice_path output_path w =
     (if \<not> SPARK_TTS_AVAILABLE ext then
        (Inl (Exn ImportError ''Spark-TTS modules not available''), w)
      else
        (case get_tts ext voice_id w of
           (Inl e, w1) \<Rightarrow> (Inl e, w1)
         | (Inr tts_engine, w1) \<Rightarrow>
             (case run_inference ext tts_engine text custom_voice_path (fs w1) of
                Inl e \<Rightarrow> (Inl e, w1)
              | Inr wav \<Rightarrow>
                  (case import_soundfile ext of
                     Some e \<Rightarrow> (Inl e, w1)
                   | None \<Rightarrow>
                       (case sf_write ext (fs w1) (path_str output_path) wav 16000 of
                          (Some e, fsys2) \<Rightarrow> (Inl e, w1\<lparr>fs := fsys2\<rparr>)
                        | (None, fsys2) \<Rightarrow>
                            (let w2 = w1\<lparr>fs := fsys2\<rparr>
                             in if \<not> exists (fs w2) (path_str output_path) then
                                  (Inl (Exn FileNotFoundError
                                     (''Output file was not created: '' @
                                      path_str output_path)), w2)
                                else
                                  (Inr \<lparr>success = True,
                                        message = Some (''Audio generated successfully using '' @
                                          (if CUDA_AVAILABLE ext then CUDA_DEVICE ext else ''CPU'')),
                                        file = Some (Some (path_str output_path)),
                                        voice = Some (voice_info_of (voice_config (manager w2)) voice_id),
                                        trace = None, log_file = None, voices_out = None\<rparr>,
                                   w2)))))))"

text \<open>
  The two handlers that write the diagnostic log differ in the prefix of the message.
  The log is opened first; when that fails the exception leaves the function.
\<close>

definition logged_failure ::
  "externals \<Rightarrow> string \<Rightarrow> string \<Rightarrow> string option \<Rightarrow> string option \<Rightarrow> ppath \<Rightarrow> exn \<Rightarrow> world
     \<Rightarrow> (exn + response) \<times> world" where
  "logged_failure ext prefix text voice_id custom_voice_path output_path e w =
     (let error_trace = format_exc ext e in
      case write_file (fs w) error_log_path
             (Text (error_log_text text voice_id custom_voice_path output_path e error_trace)) of
        Inl err \<Rightarrow> (Inl (OSError ext err), w)
      | Inr fsys' \<Rightarrow>
          (Inr \<lparr>success = False,
                message = Some (prefix @ exn_str e),
                file = Some None,
                voice = None,
                trace = Some (truncate_trace error_trace),
                log_file = Some error_log_path,
                voices_out = None\<rparr>,
           w\<lparr>fs := fsys'\<rparr>))"

text \<open>The handler of \<^verbatim>\<open>ImportError\<close>: the placeholder is written, then the answer is built.\<close>

definition import_fallback :: "externals \<Rightarrow> ppath \<Rightarrow> exn \<Rightarrow> world \<Rightarrow> (exn + response) \<times> world" where
  "import_fallback ext output_path e w =
     (case write_file (fs w) (path_str output_path) (Bytes EMPTY_WAV) of
        Inl err \<Rightarrow> (Inl (OSError ext err), w)
      | Inr fsys' \<Rightarrow>
          (Inr \<lparr>success = False,
                message = Some (''Spark-TTS is not properly installed: '' @ exn_str e @
                                ''. Created an empty audio file as fallback.''),
                file = Some (Some (path_str output_path)),
                voice = None, trace = None, log_file = None, voices_out = None\<rparr>,
           w\<lparr>fs := fsys'\<rparr>))"

text \<open>
  \<^verbatim>\<open>process_tts_request\<close>. The name \<^verbatim>\<open>output_path\<close> is bound to the \<^verbatim>\<open>Path\<close> object
  in the first line; the directory is made before the \<^verbatim>\<open>try\<close>, so its failure leaves
  the function, as does a failure inside a handler.
\<close>

definition process_tts_request ::
  "externals \<Rightarrow> string \<Rightarrow> string option \<Rightarrow> string option \<Rightarrow> string \<Rightarrow> world
     \<Rightarrow> (exn + response) \<times> world" where
  "process_tts_request ext text voice_id custom_voice_path output_arg w0 =
     (let output_path = Path output_arg in
      case mkdir_parents (fs w0) (parent output_path) of
        (Some err, fsys1) \<Rightarrow> (Inl (OSError ext err), w0\<lparr>fs := fsys1\<rparr>)
      | (None, fsys1) \<Rightarrow>
          (case try_body ext text voice_id custom_voice_path output_path (w0\<lparr>fs := fsys1\<rparr>) of
             (Inr r, w1) \<Rightarrow> (Inr r, w1)
           | (Inl e, w1) \<Rightarrow>
               if exn_kind_of e = ImportError \<or> exn_kind_of e = ModuleNotFoundError then
                 import_fallback ext output_path e w1
               else if exn_kind_of e = FileNotFoundError then
                 logged_failure ext ''File not found: '' text voice_id custom_voice_path
                   output_path e w1
               else
                 logged_failure ext ''Error generating audio: '' text voice_id custom_voice_path
                   output_path e w1))"

text \<open>
  \<^verbatim>\<open>handle_list_voices\<close>: with entries of the shape above the listing cannot raise, so
  only the successful answer remains.
\<close>

definition handle_list_voices :: "world \<Rightarrow> response" where
  "handle_list_voices w =
     \<lparr>success = True, message = None, file = None, voice = None, trace = None,
      log_file = None, voices_out = Some (manager_list_voices w)\<rparr>"

subsection \<open>The command line entry\<close>

datatype action = tts | list_voices_action

record args =
  arg_action :: action
  arg_text :: "string option"
  arg_voice_id :: "string option"
  arg_custom_voice :: "string option"
  arg_output :: string

text \<open>The \<^verbatim>\<open>try\<close> block under \<^verbatim>\<open>__main__\<close>, after the arguments are parsed.\<close>

definition main_body :: "externals \<Rightarrow> args \<Rightarrow> world \<Rightarrow> (exn + response) \<times> world" where
  "main_body ext a w =
     (if arg_action a = list_voices_action then (Inr (handle_list_voices w), w)
      else if \<not> truthy (arg_text a) then
        (Inl (Exn ValueError ''--text argument is required for TTS action''), w)
      else
        process_tts_request ext (py_str (arg_text a)) (arg_voice_id a)
          (arg_custom_voice a) (arg_output a) w)"

text \<open>What the process prints as its one line of JSON.\<close>

definition main :: "externals \<Rightarrow> args \<Rightarrow> world \<Rightarrow> response \<times> world" where
  "main ext a w =
     (case main_body ext a w of
        (Inr r, w') \<Rightarrow> (r, w')
      | (Inl e, w') \<Rightarrow>
          (\<lparr>success = False,
            message = Some (''Unexpected error: '' @ exn_str e),
            file = None, voice = None,
            trace = Some (format_exc ext e),
            log_file = None, voices_out = None\<rparr>, w'))"

section \<open>Sequences of operations in one process\<close>

text \<open>
  Everything one process can do to its cache and to its registry, in any order: the
  methods of the global manager, the request pipeline, the command line entry, and the
  registry's own mutators on the manager's \<^verbatim>\<open>voice_config\<close>. Each step comes with the
  externals of its moment, so a constructor that failed may succeed later. A step that
  ends in an exception leaves the state it had reached.
\<close>

datatype op =
    GetTts "string option"
  | ListVoices
  | ProcessTts string "string option" "string option" string
  | Main args
  | AddVoice string string string
  | RemoveVoice string

definition set_registry :: "voice_config \<times> filesystem \<Rightarrow> world \<Rightarrow> world" where
  "set_registry s w =
     (case s of (cfg, fsys) \<Rightarrow> w\<lparr>manager := (manager w)\<lparr>voice_config := cfg\<rparr>, fs := fsys\<rparr>)"

fun step :: "externals \<Rightarrow> op \<Rightarrow> world \<Rightarrow> world" where
  "step ext (GetTts voice_id) w = snd (get_tts ext voice_id w)"
| "step ext ListVoices w = w"
| "step ext (ProcessTts text voice_id custom_voice_path output_path) w =
     snd (process_tts_request ext text voice_id custom_voice_path output_path w)"
| "step ext (Main a) w = snd (main ext a w)"
| "step ext (AddVoice voice_id mdir dname) w =
     set_registry (snd (add_voice ext voice_id mdir dname (voice_config (manager w), fs w))) w"
| "step ext (RemoveVoice voice_id) w =
     set_registry (snd (remove_voice ext voice_id (voice_config (manager w), fs w))) w"

fun run :: "(externals \<times> op) list \<Rightarrow> world \<Rightarrow> world" where
  "run [] w = w"
| "run ((ext, x) # xs) w = run xs (step ext x w)"

subsection \<open>A concrete installation, for evaluation\<close>

text \<open>
  A stand-in for the JSON library on the documents that the examples meet: the empty
  registry, the registry that holds the one voice \<open>bob\<close>, and a list.
\<close>

definition demo_json_dump :: "(string \<rightharpoonup> voice) \<Rightarrow> file_content" where
  "demo_json_dump m =
     (if m ''bob'' = None then Text ''{}''
      else Text ''{bob: {model_dir: /models/bob, display_name: Bob}}'')"

definition demo_json_load :: "file_content \<Rightarrow> exn + pyobj" where
  "demo_json_load c =
     (if c = Text ''{}'' then Inr (Registry Map.empty)
      else if c = Text ''{bob: {model_dir: /models/bob, display_name: Bob}}''
      then Inr (Registry [''bob'' \<mapsto> \<lparr>model_dir = ''/models/bob'', display_name = ''Bob''\<rparr>])
      else if c = Text ''[]'' then Inr NotARegistry
      else Inl (Exn ValueError ''Expecting value''))"

definition demo_ext :: externals where
  "demo_ext =
     \<lparr>SPARK_TTS_AVAILABLE = True, CUDA_AVAILABLE = False, CUDA_DEVICE = ''Unknown'',
      SparkTTS = (\<lambda>mdir dev. if mdir = ''/models/broken''
                               then Some (Exn OtherError ''bad checkpoint'') else None),
      inference = (\<lambda>e c. Inr [0, 1]),
      import_soundfile = None,
      sf_check = (\<lambda>wav rate. None),
      sf_open_error = (\<lambda>err. ''Error opening '' @ snd err),
      sf_data = (\<lambda>wav rate. (Audio wav rate, None)),
      format_exc = (\<lambda>e. ''Traceback (most recent call last): '' @ exn_str e),
      strerror = (\<lambda>err. ''[Errno] '' @ snd err),
      json_dump = demo_json_dump,
      json_load = demo_json_load\<rparr>"

text \<open>The same installation with the engine integration missing.\<close>

definition demo_ext_off :: externals where
  "demo_ext_off = demo_ext\<lparr>SPARK_TTS_AVAILABLE := False\<rparr>"

text \<open>
  A disk with the built-in model, three model directories, the directory of the scripts
  and the directory of the registry, seen from the working directory \<open>/app\<close>; the same
  with a regular file \<open>blocker\<close> in the working directory; a disk without the model and
  without the directory of the registry.
\<close>

definition demo_fs :: filesystem where
  "demo_fs =
     \<lparr>cwd = [''app''],
      nodes = [[''app''] \<mapsto> Dir,
               [''app'', ''pretrained_models''] \<mapsto> Dir,
               [''app'', ''pretrained_models'', ''Spark-TTS-0.5B''] \<mapsto> Dir,
               [''app'', ''python''] \<mapsto> Dir,
               [''app'', ''config''] \<mapsto> Dir,
               [''models''] \<mapsto> Dir,
               [''models'', ''alice''] \<mapsto> Dir,
               [''models'', ''broken''] \<mapsto> Dir,
               [''models'', ''mine''] \<mapsto> Dir]\<rparr>"

definition blocked_fs :: filesystem where
  "blocked_fs = demo_fs\<lparr>nodes := (nodes demo_fs)([''app'', ''blocker''] \<mapsto> File (Text ''x''))\<rparr>"

definition bare_fs :: filesystem where
  "bare_fs =
     \<lparr>cwd = [''app''],
      nodes = [[''app''] \<mapsto> Dir, [''app'', ''python''] \<mapsto> Dir]\<rparr>"

definition demo_voices :: "string \<rightharpoonup> voice" where
  "demo_voices =
     [''alice'' \<mapsto> \<lparr>model_dir = ''/models/alice'', display_name = ''Alice''\<rparr>,
      ''broken'' \<mapsto> \<lparr>model_dir = ''/models/broken'', display_name = ''Broken''\<rparr>,
      ''ghost'' \<mapsto> \<lparr>model_dir = ''/models/ghost'', display_name = ''Ghost''\<rparr>]"

definition demo_config :: voice_config where
  "demo_config = \<lparr>config_path = os_path_join ''/app/python'' CONFIG_FILE, voices = demo_voices\<rparr>"

definition empty_config :: voice_config where
  "empty_config = \<lparr>config_path = os_path_join ''/app/python'' CONFIG_FILE, voices = Map.empty\<rparr>"

definition demo_world :: world where
  "demo_world =
     \<lparr>manager = VoiceManager demo_ext demo_config, fs = demo_fs,
      spark_calls = [], get_tts_calls = []\<rparr>"

definition blocked_world :: world where
  "blocked_world = demo_world\<lparr>fs := blocked_fs\<rparr>"

definition bare_world :: world where
  "bare_world = demo_world\<lparr>fs := bare_fs\<rparr>"

text \<open>A registry whose only voice has the id \<open>default\<close>.\<close>

definition clash_config :: voice_config where
  "clash_config =
     \<lparr>config_path = os_path_join ''/app/python'' CONFIG_FILE,
      voices = [''default'' \<mapsto> \<lparr>model_dir = ''/models/mine'', display_name = ''Mine''\<rparr>]\<rparr>"

definition clash_world :: world where
  "clash_world =
     \<lparr>manager = VoiceManager demo_ext clash_config, fs = demo_fs,
      spark_calls = [], get_tts_calls = []\<rparr>"

subsection \<open>Predicates on the state\<close>

text \<open>The condition of the first branch of \<^verbatim>\<open>get_tts\<close>: no id, or an id the registry lacks.\<close>

definition unregistered :: "voice_config \<Rightarrow> string option \<Rightarrow> bool" where
  "unregistered cfg voice_id =
     (case voice_id of None \<Rightarrow> True | Some vid \<Rightarrow> get_voice cfg vid = None)"

text \<open>
  What holds of every cache that the process can build: an engine in the cache comes from
  a constructor call already made, and no instance sits under two keys.
\<close>

definition cache_wf :: "world \<Rightarrow> bool" where
  "cache_wf w =
     ((\<forall>k e. tts_models (manager w) k = Some e \<longrightarrow> engine_id e < length (spark_calls w))
      \<and> (\<forall>k k' e e'. tts_models (manager w) k = Some e \<and> tts_models (manager w) k' = Some e'
            \<and> engine_id e = engine_id e' \<longrightarrow> k = k'))"

text \<open>
  How one operation may change the cache: not at all, or by one new key that receives
  the engine of the constructor call just made.
\<close>

definition cache_grows :: "world \<Rightarrow> world \<Rightarrow> bool" where
  "cache_grows w w' =
     (length (spark_calls w) \<le> length (spark_calls w')
      \<and> (tts_models (manager w') = tts_models (manager w)
          \<or> (\<exists>k e. tts_models (manager w) k = None
                \<and> engine_id e = length (spark_calls w)
                \<and> length (spark_calls w) < length (spark_calls w')
                \<and> tts_models (manager w') = (tts_models (manager w))(k \<mapsto> e))))"

text \<open>What is cached under \<open>default\<close>, if anything, was built from the built-in location.\<close>

definition default_is_builtin :: "world \<Rightarrow> bool" where
  "default_is_builtin w =
     (case tts_models (manager w) ''default'' of
        None \<Rightarrow> True
      | Some e \<Rightarrow> engine_model_dir e = default_model_dir (fs w))"

text \<open>
  How the operations change the file system: the working directory stays, and so does
  every directory.
\<close>

definition dirs_kept :: "filesystem \<Rightarrow> filesystem \<Rightarrow> bool" where
  "dirs_kept fsys fsys' =
     (cwd fsys' = cwd fsys \<and> (\<forall>loc. nodes fsys loc = Some Dir \<longrightarrow> nodes fsys' loc = Some Dir))"

text \<open>A path that \<^verbatim>\<open>open\<close> can open for writing: it resolves, and not to a directory.\<close>

definition writable :: "filesystem \<Rightarrow> string \<Rightarrow> bool" where
  "writable fsys p =
     (case resolve fsys p of
        Inl e \<Rightarrow> False
      | Inr loc \<Rightarrow> \<not> is_dir_at fsys loc)"

section \<open>The file system: what the operations keep\<close>

lemma dirs_kept_refl: "dirs_kept f f"
  by (simp add: dirs_kept_def)

lemma dirs_kept_trans: "dirs_kept f g \<Longrightarrow> dirs_kept g h \<Longrightarrow> dirs_kept f h"
  by (simp add: dirs_kept_def)

lemma dirs_kept_is_dir_at: "dirs_kept f g \<Longrightarrow> is_dir_at f loc \<Longrightarrow> is_dir_at g loc"
  by (auto simp: dirs_kept_def is_dir_at_def)

lemma walk_kept:
  "dirs_kept f g \<Longrightarrow> walk f cur cs = Inr loc \<Longrightarrow> walk g cur cs = Inr loc"
proof (induction cs arbitrary: cur)
  case Nil
  then show ?case by simp
next
  case (Cons c cs)
  from Cons.prems have d: "is_dir_at f cur"
    by (auto split: if_splits)
  then have d': "is_dir_at g cur"
    using Cons.prems(1) by (rule dirs_kept_is_dir_at [rotated])
  show ?case
    using Cons.prems d d' Cons.IH by (auto split: if_splits)
qed

lemma resolve_kept:
  "dirs_kept f g \<Longrightarrow> resolve f p = Inr loc \<Longrightarrow> resolve g p = Inr loc"
  by (auto simp: resolve_def dirs_kept_def split: if_splits intro: walk_kept [unfolded dirs_kept_def])

lemma is_dir_kept: "dirs_kept f g \<Longrightarrow> is_dir f p \<Longrightarrow> is_dir g p"
  by (auto simp: is_dir_def stat_def dirs_kept_def split: sum.splits if_splits
      dest: resolve_kept [unfolded dirs_kept_def, rotated -1])

lemma write_file_Inr:
  "write_file f p c = Inr g \<Longrightarrow>
     \<exists>loc. resolve f p = Inr loc \<and> \<not> is_dir_at f loc
           \<and> g = f\<lparr>nodes := (nodes f)(loc \<mapsto> File c)\<rparr>"
  by (auto simp: write_file_def split: sum.splits if_splits)

lemma write_file_kept: "write_file f p c = Inr g \<Longrightarrow> dirs_kept f g"
  by (auto simp: dirs_kept_def is_dir_at_def dest!: write_file_Inr)

lemma write_file_read:
  assumes "write_file f p c = Inr g"
  shows "stat g p = Some (File c) \<and> exists g p \<and> \<not> is_dir g p \<and> read_file g p = Inr c"
proof -
  from write_file_Inr [OF assms] obtain loc where
    r: "resolve f p = Inr loc" and nd: "\<not> is_dir_at f loc"
    and g: "g = f\<lparr>nodes := (nodes f)(loc \<mapsto> File c)\<rparr>"
    by blast
  have "resolve g p = Inr loc"
    using write_file_kept [OF assms] r by (rule resolve_kept)
  moreover have "loc \<noteq> []" "nodes g loc = Some (File c)"
    using nd g by (auto simp: is_dir_at_def)
  ultimately show ?thesis
    by (simp add: stat_def exists_def is_dir_def read_file_def is_dir_at_def)
qed

lemma os_mkdir_Inr:
  "os_mkdir f p = Inr g \<Longrightarrow>
     \<exists>loc. resolve f p = Inr loc \<and> loc \<noteq> [] \<and> nodes f loc = None
           \<and> g = f\<lparr>nodes := (nodes f)(loc \<mapsto> Dir)\<rparr>"
  by (auto simp: os_mkdir_def split: sum.splits if_splits)

lemma os_mkdir_kept: "os_mkdir f p = Inr g \<Longrightarrow> dirs_kept f g"
  by (auto simp: dirs_kept_def dest!: os_mkdir_Inr)

lemma os_mkdir_is_dir:
  assumes "os_mkdir f p = Inr g"
  shows "is_dir g p"
proof -
  from os_mkdir_Inr [OF assms] obtain loc where
    r: "resolve f p = Inr loc" and g: "g = f\<lparr>nodes := (nodes f)(loc \<mapsto> Dir)\<rparr>"
    by blast
  have "resolve g p = Inr loc"
    using os_mkdir_kept [OF assms] r by (rule resolve_kept)
  then show ?thesis
    using g by (simp add: is_dir_def stat_def)
qed

lemma mkdir_leaf_effect:
  "mkdir_leaf f p = (r, g) \<Longrightarrow> dirs_kept f g \<and> (r = None \<longrightarrow> is_dir g p)"
  by (auto simp: mkdir_leaf_def dirs_kept_refl split: sum.splits if_splits
      dest: os_mkdir_kept os_mkdir_is_dir)

lemma mkdir_rev_effect:
  "mkdir_rev f r ps = (res, g) \<Longrightarrow>
     dirs_kept f g \<and> (res = None \<longrightarrow> is_dir g (parts_str r (rev ps)))"
proof (induction ps arbitrary: f res g)
  case Nil
  then show ?case
    using mkdir_leaf_effect [of f "parts_str r []" res g] by simp
next
  case (Cons c rest)
  let ?p = "parts_str r (rev (c # rest))"
  show ?case
  proof (cases "os_mkdir f ?p")
    case (Inr g')
    with Cons.prems have "g = g'" "res = None" by (simp_all add: Let_def)
    with Inr show ?thesis
      by (auto dest: os_mkdir_kept os_mkdir_is_dir)
  next
    case (Inl err)
    show ?thesis
    proof (cases "fst err = ENOENT")
      case True
      obtain res1 f1 where up: "mkdir_rev f r rest = (res1, f1)"
        by (cases "mkdir_rev f r rest")
      from Cons.IH [OF up] have k1: "dirs_kept f f1" by simp
      show ?thesis
      proof (cases res1)
        case (Some e)
        with Cons.prems Inl True up have "g = f1" "res = Some e"
          by (simp_all add: Let_def)
        with k1 show ?thesis by simp
      next
        case None
        with Cons.prems Inl True up have "mkdir_leaf f1 ?p = (res, g)"
          by (simp add: Let_def)
        from mkdir_leaf_effect [OF this] k1 show ?thesis
          by (auto intro: dirs_kept_trans)
      qed
    next
      case False
      with Cons.prems Inl show ?thesis
        by (auto simp: Let_def dirs_kept_refl split: if_splits)
    qed
  qed
qed

lemma mkdir_parents_effect:
  "mkdir_parents f p = (res, g) \<Longrightarrow> dirs_kept f g \<and> (res = None \<longrightarrow> is_dir g (path_str p))"
  using mkdir_rev_effect [of f "path_root p" "rev (path_parts p)" res g]
  by (simp add: mkdir_parents_def path_str_def)

lemma is_dir_os_mkdir:
  "is_dir f p \<Longrightarrow> \<exists>err. os_mkdir f p = Inl err \<and> fst err \<noteq> ENOENT"
  by (auto simp: is_dir_def stat_def os_mkdir_def split: sum.splits if_splits)

lemma mkdir_parents_idem:
  assumes "is_dir f (path_str p)"
  shows "mkdir_parents f p = (None, f)"
proof -
  from is_dir_os_mkdir [OF assms] obtain err where
    e: "os_mkdir f (path_str p) = Inl err" "fst err \<noteq> ENOENT"
    by blast
  show ?thesis
  proof (cases "rev (path_parts p)")
    case Nil
    with e assms show ?thesis
      by (simp add: mkdir_parents_def mkdir_leaf_def path_str_def)
  next
    case (Cons c rest)
    then have "rev (c # rest) = path_parts p"
      by (metis rev_rev_ident)
    with Cons e assms show ?thesis
      by (simp add: mkdir_parents_def path_str_def Let_def)
  qed
qed

lemma sf_write_kept: "sf_write ext f p wav rate = (r, g) \<Longrightarrow> dirs_kept f g"
  by (auto simp: sf_write_def dirs_kept_refl split: option.splits sum.splits
      dest: write_file_kept)

section \<open>The engine cache: how operations change it\<close>

lemma new_SparkTTS_frame:
  "manager (snd (new_SparkTTS ext mdir w)) = manager w"
  "fs (snd (new_SparkTTS ext mdir w)) = fs w"
  "get_tts_calls (snd (new_SparkTTS ext mdir w)) = get_tts_calls w"
  "spark_calls (snd (new_SparkTTS ext mdir w)) = spark_calls w @ [mdir]"
  by (simp_all add: new_SparkTTS_def Let_def split: option.splits)

lemma new_SparkTTS_result:
  "new_SparkTTS ext mdir w = (Inr e, w') \<Longrightarrow>
     e = \<lparr>engine_id = length (spark_calls w), engine_model_dir = mdir,
          engine_device = device (manager w)\<rparr>
     \<and> w' = w\<lparr>spark_calls := spark_calls w @ [mdir]\<rparr>"
  by (auto simp: new_SparkTTS_def Let_def split: option.splits if_splits)

lemma new_SparkTTS_error:
  "new_SparkTTS ext mdir w = (Inl x, w') \<Longrightarrow> w' = w\<lparr>spark_calls := spark_calls w @ [mdir]\<rparr>"
  by (auto simp: new_SparkTTS_def Let_def split: option.splits if_splits)

lemma store_engine_frame:
  "fs (store_engine k e w) = fs w"
  "spark_calls (store_engine k e w) = spark_calls w"
  "get_tts_calls (store_engine k e w) = get_tts_calls w"
  "voice_config (manager (store_engine k e w)) = voice_config (manager w)"
  "device (manager (store_engine k e w)) = device (manager w)"
  "tts_models (manager (store_engine k e w)) = (tts_models (manager w))(k \<mapsto> e)"
  by (simp_all add: store_engine_def)

lemma get_default_cases:
  "get_default ext w = (r, w') \<Longrightarrow>
     (\<exists>e. tts_models (manager w) ''default'' = Some e \<and> r = Inr e \<and> w' = w)
   \<or> (tts_models (manager w) ''default'' = None \<and> \<not> exists (fs w) (default_model_dir (fs w))
        \<and> (\<exists>x. r = Inl x) \<and> w' = w)
   \<or> (tts_models (manager w) ''default'' = None \<and> exists (fs w) (default_model_dir (fs w))
        \<and> (\<exists>x. r = Inl x) \<and> w' = w\<lparr>spark_calls := spark_calls w @ [default_model_dir (fs w)]\<rparr>)
   \<or> (tts_models (manager w) ''default'' = None \<and> exists (fs w) (default_model_dir (fs w))
        \<and> r = Inr \<lparr>engine_id = length (spark_calls w), engine_model_dir = default_model_dir (fs w),
                    engine_device = device (manager w)\<rparr>
        \<and> w' = store_engine ''default''
                 \<lparr>engine_id = length (spark_calls w), engine_model_dir = default_model_dir (fs w),
                    engine_device = device (manager w)\<rparr>
                 (w\<lparr>spark_calls := spark_calls w @ [default_model_dir (fs w)]\<rparr>))"
  by (auto simp: get_default_def Let_def split: option.splits if_splits prod.splits sum.splits
      dest: new_SparkTTS_result new_SparkTTS_error)

lemma get_registered_cases:
  "get_registered ext vid v w = (r, w') \<Longrightarrow>
     (\<exists>e. tts_models (manager w) vid = Some e \<and> r = Inr e \<and> w' = w)
   \<or> (tts_models (manager w) vid = None \<and> \<not> exists (fs w) (model_dir v)
        \<and> (\<exists>x. r = Inl x) \<and> w' = w)
   \<or> (tts_models (manager w) vid = None \<and> exists (fs w) (model_dir v)
        \<and> (\<exists>x. r = Inl x) \<and> w' = w\<lparr>spark_calls := spark_calls w @ [model_dir v]\<rparr>)
   \<or> (tts_models (manager w) vid = None \<and> exists (fs w) (model_dir v)
        \<and> r = Inr \<lparr>engine_id = length (spark_calls w), engine_model_dir = model_dir v,
                    engine_device = device (manager w)\<rparr>
        \<and> w' = store_engine vid
                 \<lparr>engine_id = length (spark_calls w), engine_model_dir = model_dir v,
                    engine_device = device (manager w)\<rparr>
                 (w\<lparr>spark_calls := spark_calls w @ [model_dir v]\<rparr>))"
  by (auto simp: get_registered_def Let_def split: option.splits if_splits prod.splits sum.splits
      dest: new_SparkTTS_result new_SparkTTS_error)


lemma cache_grows_refl: "cache_grows w w"
  by (simp add: cache_grows_def)

lemma cache_grows_keeps:
  "cache_grows w w' \<Longrightarrow> tts_models (manager w) k = Some e \<Longrightarrow> tts_models (manager w') k = Some e"
  by (auto simp: cache_grows_def)

lemma cache_grows_wf:
  assumes "cache_grows w w'" and "cache_wf w"
  shows "cache_wf w'"
proof -
  from assms(1) consider
      (same) "length (spark_calls w) \<le> length (spark_calls w')"
             "tts_models (manager w') = tts_models (manager w)"
    | (new) k e where "tts_models (manager w) k = None" "engine_id e = length (spark_calls w)"
             "length (spark_calls w) < length (spark_calls w')"
             "tts_models (manager w') = (tts_models (manager w))(k \<mapsto> e)"
    by (auto simp: cache_grows_def)
  then show ?thesis
  proof cases
    case same
    with assms(2) show ?thesis
      by (fastforce simp: cache_wf_def)
  next
    case new
    from assms(2) have bound:
      "\<And>j d. tts_models (manager w) j = Some d \<Longrightarrow> engine_id d < length (spark_calls w)"
      and inj: "\<And>j j' d d'. tts_models (manager w) j = Some d \<Longrightarrow>
                 tts_models (manager w) j' = Some d' \<Longrightarrow> engine_id d = engine_id d' \<Longrightarrow> j = j'"
      by (auto simp: cache_wf_def)
    show ?thesis
      unfolding cache_wf_def
    proof (intro conjI allI impI)
      fix j d assume "tts_models (manager w') j = Some d"
      with new bound [of j d] show "engine_id d < length (spark_calls w')"
        by (auto split: if_splits)
    next
      fix j j' d d'
      assume "tts_models (manager w') j = Some d \<and> tts_models (manager w') j' = Some d'
              \<and> engine_id d = engine_id d'"
      with new bound [of j d] bound [of j' d'] inj [of j d j' d'] show "j = j'"
        by (auto split: if_splits)
    qed
  qed
qed

lemma cache_grows_log_only:
  "cache_grows w (w\<lparr>spark_calls := spark_calls w @ [d]\<rparr>)"
  by (simp add: cache_grows_def)

lemma cache_grows_new:
  assumes "tts_models (manager w) k = None" and "engine_id e = length (spark_calls w)"
  shows "cache_grows w (store_engine k e (w\<lparr>spark_calls := spark_calls w @ [d]\<rparr>))"
  unfolding cache_grows_def
proof (intro conjI disjI2 exI [of _ k] exI [of _ e])
  show "tts_models (manager (store_engine k e (w\<lparr>spark_calls := spark_calls w @ [d]\<rparr>)))
          = (tts_models (manager w))(k \<mapsto> e)"
    by (simp add: store_engine_def)
qed (use assms in \<open>simp_all add: store_engine_def\<close>)

lemma get_default_grows: "get_default ext w = (r, w') \<Longrightarrow> cache_grows w w'"
  by (drule get_default_cases)
     (auto simp: cache_grows_refl cache_grows_log_only intro!: cache_grows_new)

lemma get_registered_grows: "get_registered ext vid v w = (r, w') \<Longrightarrow> cache_grows w w'"
  by (drule get_registered_cases)
     (auto simp: cache_grows_refl cache_grows_log_only intro!: cache_grows_new)

lemma cache_grows_log:
  "cache_grows (w\<lparr>get_tts_calls := c\<rparr>) w' \<Longrightarrow> cache_grows w w'"
  by (simp add: cache_grows_def)

lemma get_tts_grows: "get_tts ext voice_id w = (r, w') \<Longrightarrow> cache_grows w w'"
  by (auto simp: get_tts_def Let_def split: option.splits
      dest!: get_default_grows get_registered_grows cache_grows_log)

lemma get_default_frame:
  "get_default ext w = (r, w') \<Longrightarrow>
     fs w' = fs w \<and> voice_config (manager w') = voice_config (manager w)
     \<and> device (manager w') = device (manager w) \<and> get_tts_calls w' = get_tts_calls w"
  by (drule get_default_cases) (auto simp: store_engine_def)

lemma get_registered_frame:
  "get_registered ext vid v w = (r, w') \<Longrightarrow>
     fs w' = fs w \<and> voice_config (manager w') = voice_config (manager w)
     \<and> device (manager w') = device (manager w) \<and> get_tts_calls w' = get_tts_calls w"
  by (drule get_registered_cases) (auto simp: store_engine_def)

lemma get_tts_frame:
  "get_tts ext voice_id w = (r, w') \<Longrightarrow>
     fs w' = fs w \<and> voice_config (manager w') = voice_config (manager w)
     \<and> device (manager w') = device (manager w)
     \<and> get_tts_calls w' = get_tts_calls w @ [voice_id]"
  by (auto simp: get_tts_def Let_def split: option.splits
      dest!: get_default_frame get_registered_frame)


lemma get_tts_effect:
  "get_tts ext voice_id w = (r, w') \<Longrightarrow>
     cache_grows w w' \<and> fs w' = fs w \<and> voice_config (manager w') = voice_config (manager w)
     \<and> device (manager w') = device (manager w)
     \<and> get_tts_calls w' = get_tts_calls w @ [voice_id]"
  using get_tts_frame get_tts_grows by blast

lemma cache_grows_fs:
  "cache_grows w w' \<Longrightarrow> cache_grows (w\<lparr>fs := f\<rparr>) w'"
  "cache_grows w w' \<Longrightarrow> cache_grows w (w'\<lparr>fs := g\<rparr>)"
  by (simp_all add: cache_grows_def)

lemma try_body_effect:
  assumes "try_body ext text voice_id custom_voice_path output_path w = (r, w')"
  shows "cache_grows w w' \<and> voice_config (manager w') = voice_config (manager w)
         \<and> device (manager w') = device (manager w) \<and> dirs_kept (fs w) (fs w')"
proof (cases "SPARK_TTS_AVAILABLE ext")
  case False
  with assms show ?thesis
    by (simp add: try_body_def cache_grows_refl dirs_kept_refl)
next
  case True
  obtain g w1 where gt: "get_tts ext voice_id w = (g, w1)"
    by (cases "get_tts ext voice_id w")
  from get_tts_effect [OF gt]
  have e1: "cache_grows w w1" "fs w1 = fs w" "voice_config (manager w1) = voice_config (manager w)"
    "device (manager w1) = device (manager w)"
    by simp_all
  have "manager w' = manager w1 \<and> spark_calls w' = spark_calls w1 \<and> dirs_kept (fs w1) (fs w')"
    using assms True gt
    by (auto simp: try_body_def Let_def dirs_kept_refl
        split: sum.splits option.splits prod.splits if_splits dest: sf_write_kept)
  with e1 show ?thesis
    by (simp add: cache_grows_def)
qed

lemma logged_failure_effect:
  "logged_failure ext prefix text voice_id custom_voice_path output_path e w = (r, w') \<Longrightarrow>
     manager w' = manager w \<and> spark_calls w' = spark_calls w
     \<and> get_tts_calls w' = get_tts_calls w \<and> dirs_kept (fs w) (fs w')"
  by (auto simp: logged_failure_def Let_def dirs_kept_refl split: sum.splits
      dest: write_file_kept)

lemma import_fallback_effect:
  "import_fallback ext output_path e w = (r, w') \<Longrightarrow>
     manager w' = manager w \<and> spark_calls w' = spark_calls w
     \<and> get_tts_calls w' = get_tts_calls w \<and> dirs_kept (fs w) (fs w')"
  by (auto simp: import_fallback_def dirs_kept_refl split: sum.splits dest: write_file_kept)

lemma process_tts_request_effect:
  assumes "process_tts_request ext text voice_id custom_voice_path output_arg w = (r, w')"
  shows "cache_grows w w' \<and> voice_config (manager w') = voice_config (manager w)
         \<and> device (manager w') = device (manager w) \<and> dirs_kept (fs w) (fs w')"
proof -
  let ?out = "Path output_arg"
  obtain res f1 where mk: "mkdir_parents (fs w) (parent ?out) = (res, f1)"
    by (cases "mkdir_parents (fs w) (parent ?out)")
  from mkdir_parents_effect [OF mk] have k1: "dirs_kept (fs w) f1" by simp
  show ?thesis
  proof (cases res)
    case (Some err)
    with assms mk k1 show ?thesis
      by (auto simp: process_tts_request_def Let_def cache_grows_def)
  next
    case None
    let ?w = "w\<lparr>fs := f1\<rparr>"
    obtain b w1 where tb: "try_body ext text voice_id custom_voice_path ?out ?w = (b, w1)"
      by (cases "try_body ext text voice_id custom_voice_path ?out ?w")
    from try_body_effect [OF tb] k1
    have e1: "cache_grows w w1" "voice_config (manager w1) = voice_config (manager w)"
      "device (manager w1) = device (manager w)" "dirs_kept (fs w) (fs w1)"
      by (auto simp: cache_grows_def intro: dirs_kept_trans)
    have "manager w' = manager w1 \<and> spark_calls w' = spark_calls w1
          \<and> dirs_kept (fs w1) (fs w')"
      using assms mk None tb
      by (auto simp: process_tts_request_def Let_def dirs_kept_refl
          split: sum.splits if_splits dest!: logged_failure_effect import_fallback_effect)
    with e1 show ?thesis
      by (auto simp: cache_grows_def intro: dirs_kept_trans)
  qed
qed

lemma main_effect:
  assumes "main ext a w = (r, w')"
  shows "cache_grows w w' \<and> voice_config (manager w') = voice_config (manager w)
         \<and> device (manager w') = device (manager w) \<and> dirs_kept (fs w) (fs w')"
  using assms
  by (auto simp: main_def main_body_def cache_grows_refl dirs_kept_refl
      split: if_splits prod.splits sum.splits dest!: process_tts_request_effect)

lemma step_grows: "cache_grows w (step ext x w)"
proof (cases x)
  case (GetTts v)
  then show ?thesis
    using get_tts_grows [of ext v w] by (cases "get_tts ext v w") simp
next
  case ListVoices
  then show ?thesis by (simp add: cache_grows_refl)
next
  case (ProcessTts t v c out)
  then show ?thesis
    using process_tts_request_effect [of ext t v c out w]
    by (cases "process_tts_request ext t v c out w") simp
next
  case (Main a)
  then show ?thesis
    using main_effect [of ext a w] by (cases "main ext a w") simp
next
  case (AddVoice v d n)
  then show ?thesis
    by (simp add: set_registry_def add_voice_def Let_def cache_grows_def split: sum.splits)
next
  case (RemoveVoice v)
  then show ?thesis
    by (simp add: set_registry_def remove_voice_def Let_def cache_grows_def split: sum.splits)
qed

lemma run_keeps:
  "tts_models (manager w) k = Some e \<Longrightarrow> tts_models (manager (run xs w)) k = Some e"
proof (induction xs arbitrary: w)
  case Nil
  then show ?case by simp
next
  case (Cons x xs)
  obtain ext y where x: "x = (ext, y)" by (cases x)
  from Cons.prems have "tts_models (manager (step ext y w)) k = Some e"
    by (rule cache_grows_keeps [OF step_grows])
  then show ?case
    using Cons.IH x by simp
qed

lemma run_wf: "cache_wf w \<Longrightarrow> cache_wf (run xs w)"
proof (induction xs arbitrary: w)
  case Nil
  then show ?case by simp
next
  case (Cons x xs)
  obtain ext y where x: "x = (ext, y)" by (cases x)
  have "cache_wf (step ext y w)"
    using step_grows Cons.prems by (rule cache_grows_wf)
  then show ?case
    using Cons.IH x by simp
qed

section \<open>The engine cache: persistence, fallback and failed loads\<close>

lemma run_append: "run (xs @ ys) w = run ys (run xs w)"
  by (induction xs arbitrary: w) auto

lemmas demo_defs = demo_world_def demo_ext_def demo_fs_def demo_config_def demo_voices_def
  clash_world_def clash_config_def VoiceManager_def CONFIG_FILE_def os_path_join_def
  demo_ext_off_def blocked_fs_def blocked_world_def bare_fs_def bare_world_def empty_config_def
  demo_json_dump_def demo_json_load_def

lemmas fs_defs = exists_def is_dir_def stat_def resolve_def is_dir_at_def write_file_def
  read_file_def os_mkdir_def mkdir_leaf_def mkdir_parents_def Path_def root_of_def
  parts_str_def path_str_def parent_def getcwd_def absolute_def default_model_dir_def

lemmas cache_defs = get_tts_def get_default_def get_registered_def new_SparkTTS_def
  call_SparkTTS_def store_engine_def get_voice_def Let_def

text \<open>
  Claim C5. Along any sequence of operations of one process, an engine that sits under a
  key of the cache at some moment sits under that key, the same instance, at every later
  moment: nothing removes an entry or puts another engine in its place, whatever happens
  to the registry in between.
\<close>

theorem cache_entries_persist:
  "tts_models (manager (run xs w)) k = Some e \<Longrightarrow>
     tts_models (manager (run (xs @ ys) w)) k = Some e"
  by (simp add: run_append run_keeps)

theorem cache_entries_persist_witness:
  "tts_models (manager (run [(demo_ext, GetTts (Some ''alice''))] demo_world)) ''alice''
     = Some \<lparr>engine_id = 0, engine_model_dir = ''/models/alice'', engine_device = ''cpu''\<rparr>
   \<and> tts_models (manager (run ([(demo_ext, GetTts (Some ''alice''))]
          @ [(demo_ext, RemoveVoice ''alice''), (demo_ext, GetTts None)]) demo_world)) ''alice''
     = Some \<lparr>engine_id = 0, engine_model_dir = ''/models/alice'', engine_device = ''cpu''\<rparr>"
proof -
  have h: "tts_models (manager (run [(demo_ext, GetTts (Some ''alice''))] demo_world)) ''alice''
     = Some \<lparr>engine_id = 0, engine_model_dir = ''/models/alice'', engine_device = ''cpu''\<rparr>"
    by (simp add: demo_defs cache_defs fs_defs)
  from cache_entries_persist [OF h] h show ?thesis by blast
qed

lemma get_tts_unregistered:
  "unregistered (voice_config (manager w)) voice_id \<Longrightarrow>
     get_tts ext voice_id w = get_default ext (w\<lparr>get_tts_calls := get_tts_calls w @ [voice_id]\<rparr>)"
  by (auto simp: unregistered_def get_tts_def Let_def split: option.splits)

lemma get_tts_default_hit:
  assumes "unregistered (voice_config (manager w)) voice_id"
      and "tts_models (manager w) ''default'' = Some e"
  shows "get_tts ext voice_id w = (Inr e, w\<lparr>get_tts_calls := get_tts_calls w @ [voice_id]\<rparr>)"
  using assms by (simp add: get_tts_unregistered get_default_def)

text \<open>
  Claim C2, as amended. A call of \<open>get_tts\<close> without an id, or with an id that the registry
  lacks, that returns an engine returns the one stored under \<open>default\<close>. When nothing was
  cached under that key, the call makes exactly one constructor call, on the built-in
  location, and the engine is the new object; when the cached entry was built from the
  built-in location, so is the engine returned. After that, at any later moment of the
  process, every such call returns this same instance, calls no constructor and leaves
  the cache as it is.
\<close>

theorem default_fallback:
  assumes unreg: "unregistered (voice_config (manager w)) voice_id"
      and ret: "get_tts ext voice_id w = (Inr e, w')"
  shows "tts_models (manager w') ''default'' = Some e
       \<and> (default_is_builtin w \<longrightarrow> engine_model_dir e = default_model_dir (fs w))
       \<and> (tts_models (manager w) ''default'' = None \<longrightarrow>
            spark_calls w' = spark_calls w @ [default_model_dir (fs w)]
            \<and> engine_id e = length (spark_calls w)
            \<and> engine_model_dir e = default_model_dir (fs w))
       \<and> (tts_models (manager w) ''default'' \<noteq> None \<longrightarrow>
            tts_models (manager w) ''default'' = Some e
            \<and> spark_calls w' = spark_calls w
            \<and> tts_models (manager w') = tts_models (manager w))
       \<and> (\<forall>xs ext2 voice_id2.
            unregistered (voice_config (manager (run xs w'))) voice_id2 \<longrightarrow>
              fst (get_tts ext2 voice_id2 (run xs w')) = Inr e
              \<and> spark_calls (snd (get_tts ext2 voice_id2 (run xs w'))) = spark_calls (run xs w')
              \<and> tts_models (manager (snd (get_tts ext2 voice_id2 (run xs w'))))
                  = tts_models (manager (run xs w')))"
proof -
  let ?w = "w\<lparr>get_tts_calls := get_tts_calls w @ [voice_id]\<rparr>"
  from unreg ret have gd: "get_default ext ?w = (Inr e, w')"
    by (simp add: get_tts_unregistered)
  from get_default_cases [OF gd]
  have stored: "tts_models (manager w') ''default'' = Some e"
    and miss: "tts_models (manager w) ''default'' = None \<Longrightarrow>
            spark_calls w' = spark_calls w @ [default_model_dir (fs w)]
            \<and> engine_id e = length (spark_calls w)
            \<and> engine_model_dir e = default_model_dir (fs w)"
    and hit: "tts_models (manager w) ''default'' \<noteq> None \<Longrightarrow>
            tts_models (manager w) ''default'' = Some e
            \<and> spark_calls w' = spark_calls w
            \<and> tts_models (manager w') = tts_models (manager w)"
    by (auto simp: store_engine_def)
  have origin: "default_is_builtin w \<Longrightarrow> engine_model_dir e = default_model_dir (fs w)"
    using miss hit by (cases "tts_models (manager w) ''default''") (auto simp: default_is_builtin_def)
  have later: "fst (get_tts ext2 voice_id2 (run xs w')) = Inr e
              \<and> spark_calls (snd (get_tts ext2 voice_id2 (run xs w'))) = spark_calls (run xs w')
              \<and> tts_models (manager (snd (get_tts ext2 voice_id2 (run xs w'))))
                  = tts_models (manager (run xs w'))"
    if "unregistered (voice_config (manager (run xs w'))) voice_id2" for xs ext2 voice_id2
    using get_tts_default_hit [OF that run_keeps [OF stored], of ext2] by simp
  from stored origin miss hit later show ?thesis by blast
qed

theorem default_fallback_witness:
  "unregistered (voice_config (manager demo_world)) None
   \<and> default_is_builtin demo_world
   \<and> fst (get_tts demo_ext None demo_world)
       = Inr \<lparr>engine_id = 0, engine_model_dir = ''/app/pretrained_models/Spark-TTS-0.5B'',
              engine_device = ''cpu''\<rparr>
   \<and> tts_models (manager (snd (get_tts demo_ext None demo_world))) ''default''
       = Some \<lparr>engine_id = 0, engine_model_dir = ''/app/pretrained_models/Spark-TTS-0.5B'',
               engine_device = ''cpu''\<rparr>
   \<and> spark_calls (snd (get_tts demo_ext None demo_world))
       = [''/app/pretrained_models/Spark-TTS-0.5B'']
   \<and> fst (get_tts demo_ext (Some ''nonexistent-id'') (snd (get_tts demo_ext None demo_world)))
       = Inr \<lparr>engine_id = 0, engine_model_dir = ''/app/pretrained_models/Spark-TTS-0.5B'',
              engine_device = ''cpu''\<rparr>
   \<and> spark_calls (snd (get_tts demo_ext (Some ''nonexistent-id'')
                          (snd (get_tts demo_ext None demo_world))))
       = [''/app/pretrained_models/Spark-TTS-0.5B'']"
proof -
  let ?e = "\<lparr>engine_id = 0, engine_model_dir = ''/app/pretrained_models/Spark-TTS-0.5B'',
              engine_device = ''cpu''\<rparr>"
  let ?w' = "snd (get_tts demo_ext None demo_world)"
  have h1: "unregistered (voice_config (manager demo_world)) None"
    by (simp add: unregistered_def)
  have h2f: "fst (get_tts demo_ext None demo_world) = Inr ?e"
    by (simp add: demo_defs cache_defs fs_defs)
  then have h2: "get_tts demo_ext None demo_world = (Inr ?e, ?w')"
    by (simp add: prod_eq_iff)
  have h3: "default_is_builtin demo_world"
    by (simp add: default_is_builtin_def demo_defs fs_defs)
  have h4: "unregistered (voice_config (manager (run [] ?w'))) (Some ''nonexistent-id'')"
    by (simp add: unregistered_def demo_defs cache_defs fs_defs)
  have h5: "tts_models (manager demo_world) ''default'' = None"
    by (simp add: demo_defs)
  from default_fallback [OF h1 h2] h1 h2 h3 h4 h5
  have "tts_models (manager ?w') ''default'' = Some ?e"
    and "spark_calls ?w' = spark_calls demo_world @ [default_model_dir (fs demo_world)]"
    and "fst (get_tts demo_ext (Some ''nonexistent-id'') (run [] ?w')) = Inr ?e"
    and "spark_calls (snd (get_tts demo_ext (Some ''nonexistent-id'') (run [] ?w')))
           = spark_calls (run [] ?w')"
    by blast+
  moreover have "default_model_dir (fs demo_world) = ''/app/pretrained_models/Spark-TTS-0.5B''"
    by (simp add: demo_defs fs_defs)
  moreover have "spark_calls demo_world = []"
    by (simp add: demo_world_def)
  ultimately show ?thesis
    using h1 h2f h3 by simp
qed

text \<open>
  The claim as first stated fails when the registry holds a voice whose id is \<open>default\<close>:
  once that voice is resolved, its engine sits under the key, and a call without an id
  returns it, although no constructor call was ever made on the built-in location.
\<close>

theorem default_fallback_counterexample:
  "fst (get_tts demo_ext None (snd (get_tts demo_ext (Some ''default'') clash_world)))
     = Inr \<lparr>engine_id = 0, engine_model_dir = ''/models/mine'', engine_device = ''cpu''\<rparr>
   \<and> spark_calls (snd (get_tts demo_ext None (snd (get_tts demo_ext (Some ''default'') clash_world))))
     = [''/models/mine'']
   \<and> default_model_dir (fs clash_world) = ''/app/pretrained_models/Spark-TTS-0.5B''"
  by (simp add: demo_defs cache_defs fs_defs)

lemma get_tts_registered:
  "get_voice (voice_config (manager w)) voice_id = Some v \<Longrightarrow>
     get_tts ext (Some voice_id) w
       = get_registered ext voice_id v (w\<lparr>get_tts_calls := get_tts_calls w @ [Some voice_id]\<rparr>)"
  by (simp add: get_tts_def Let_def)

lemma get_tts_load_error:
  assumes "get_voice (voice_config (manager w)) voice_id = Some v"
      and "tts_models (manager w) voice_id = None"
      and "exists (fs w) (model_dir v)"
      and "call_SparkTTS ext (model_dir v) (device (manager w)) = Some x"
  shows "get_tts ext (Some voice_id) w
       = (Inl (Exn RuntimeError
            (''Failed to load model for voice '' @ [CHR 0x27] @ voice_id @ [CHR 0x27] @
             '': '' @ exn_str x)),
          w\<lparr>get_tts_calls := get_tts_calls w @ [Some voice_id],
            spark_calls := spark_calls w @ [model_dir v]\<rparr>)"
  using assms
  by (simp add: get_tts_registered get_registered_def new_SparkTTS_def Let_def)

lemma get_tts_attempt:
  assumes "get_voice (voice_config (manager w)) voice_id = Some v"
      and "tts_models (manager w) voice_id = None"
      and "exists (fs w) (model_dir v)"
  shows "spark_calls (snd (get_tts ext (Some voice_id) w)) = spark_calls w @ [model_dir v]
       \<and> (\<forall>e. fst (get_tts ext (Some voice_id) w) = Inr e \<longrightarrow>
              e = \<lparr>engine_id = length (spark_calls w), engine_model_dir = model_dir v,
                   engine_device = device (manager w)\<rparr>)"
  using assms
  by (auto simp: get_tts_registered get_registered_def new_SparkTTS_def store_engine_def Let_def
      split: option.splits)

text \<open>
  Claim C3. For a voice of the registry that is not cached and whose model directory
  exists, when the constructor raises, \<open>get_tts\<close> fails with a \<open>RuntimeError\<close> that names
  the voice and carries the constructor's message; the manager, and so the cache, is as
  before and the id is still absent from it. A second call for the id, whatever the
  constructor does then, calls the constructor again: an engine it returns is the
  object built by that second call.
\<close>

theorem load_failure_not_cached:
  assumes reg: "get_voice (voice_config (manager w)) voice_id = Some v"
      and uncached: "tts_models (manager w) voice_id = None"
      and dir: "exists (fs w) (model_dir v)"
      and raises: "call_SparkTTS ext (model_dir v) (device (manager w)) = Some x"
  shows "fst (get_tts ext (Some voice_id) w)
           = Inl (Exn RuntimeError
               (''Failed to load model for voice '' @ [CHR 0x27] @ voice_id @ [CHR 0x27] @
                '': '' @ exn_str x))
       \<and> manager (snd (get_tts ext (Some voice_id) w)) = manager w
       \<and> tts_models (manager (snd (get_tts ext (Some voice_id) w))) voice_id = None
       \<and> spark_calls (snd (get_tts ext (Some voice_id) w)) = spark_calls w @ [model_dir v]
       \<and> (\<forall>ext2.
            spark_calls (snd (get_tts ext2 (Some voice_id) (snd (get_tts ext (Some voice_id) w))))
              = spark_calls w @ [model_dir v, model_dir v]
            \<and> (\<forall>e. fst (get_tts ext2 (Some voice_id) (snd (get_tts ext (Some voice_id) w))) = Inr e
                  \<longrightarrow> engine_id e = Suc (length (spark_calls w))
                      \<and> engine_model_dir e = model_dir v))"
proof -
  let ?w1 = "w\<lparr>get_tts_calls := get_tts_calls w @ [Some voice_id],
               spark_calls := spark_calls w @ [model_dir v]\<rparr>"
  have first: "get_tts ext (Some voice_id) w
       = (Inl (Exn RuntimeError
            (''Failed to load model for voice '' @ [CHR 0x27] @ voice_id @ [CHR 0x27] @
             '': '' @ exn_str x)), ?w1)"
    using assms by (rule get_tts_load_error)
  have again: "spark_calls (snd (get_tts ext2 (Some voice_id) ?w1)) = spark_calls ?w1 @ [model_dir v]
       \<and> (\<forall>e. fst (get_tts ext2 (Some voice_id) ?w1) = Inr e \<longrightarrow>
              e = \<lparr>engine_id = length (spark_calls ?w1), engine_model_dir = model_dir v,
                   engine_device = device (manager ?w1)\<rparr>)" for ext2
    using reg uncached dir by (intro get_tts_attempt) simp_all
  have retry: "spark_calls (snd (get_tts ext2 (Some voice_id) ?w1))
              = spark_calls w @ [model_dir v, model_dir v]
            \<and> (\<forall>e. fst (get_tts ext2 (Some voice_id) ?w1) = Inr e
                  \<longrightarrow> engine_id e = Suc (length (spark_calls w))
                      \<and> engine_model_dir e = model_dir v)" for ext2
    using again [of ext2] by auto
  show ?thesis
    using uncached retry by (simp add: first)
qed

theorem load_failure_not_cached_witness:
  "get_voice (voice_config (manager demo_world)) ''broken''
     = Some \<lparr>model_dir = ''/models/broken'', display_name = ''Broken''\<rparr>
   \<and> tts_models (manager demo_world) ''broken'' = None
   \<and> exists (fs demo_world) ''/models/broken''
   \<and> call_SparkTTS demo_ext ''/models/broken'' (device (manager demo_world))
       = Some (Exn OtherError ''bad checkpoint'')
   \<and> fst (get_tts demo_ext (Some ''broken'') demo_world)
       = Inl (Exn RuntimeError (''Failed to load model for voice '' @ [CHR 0x27] @ ''broken'' @
                                [CHR 0x27] @ '': bad checkpoint''))
   \<and> tts_models (manager (snd (get_tts demo_ext (Some ''broken'') demo_world))) ''broken'' = None
   \<and> spark_calls (snd (get_tts demo_ext (Some ''broken'')
                          (snd (get_tts demo_ext (Some ''broken'') demo_world))))
       = [''/models/broken'', ''/models/broken'']"
proof -
  let ?v = "\<lparr>model_dir = ''/models/broken'', display_name = ''Broken''\<rparr>"
  have h1: "get_voice (voice_config (manager demo_world)) ''broken'' = Some ?v"
    by (simp add: demo_defs get_voice_def)
  have h2: "tts_models (manager demo_world) ''broken'' = None"
    by (simp add: demo_defs)
  have h3: "exists (fs demo_world) (model_dir ?v)"
    by (simp add: demo_defs fs_defs)
  have h4: "call_SparkTTS demo_ext (model_dir ?v) (device (manager demo_world))
              = Some (Exn OtherError ''bad checkpoint'')"
    by (simp add: demo_defs call_SparkTTS_def)
  have h5: "spark_calls demo_world = []"
    by (simp add: demo_world_def)
  from load_failure_not_cached [OF h1 h2 h3 h4] h1 h2 h3 h4 h5 show ?thesis
    by simp
qed

lemmas registry_defs = add_voice_def remove_voice_def save_config_def set_registry_def
  OSError_def

lemma step_RemoveVoice_effect:
  "tts_models (manager (step ext0 (RemoveVoice voice_id) w)) = tts_models (manager w)
   \<and> spark_calls (step ext0 (RemoveVoice voice_id) w) = spark_calls w
   \<and> get_voice (voice_config (manager (step ext0 (RemoveVoice voice_id) w))) voice_id = None"
  by (auto simp: set_registry_def remove_voice_def get_voice_def Let_def split: sum.splits)

lemma get_default_log_irrelevant:
  "fst (get_default ext (w\<lparr>get_tts_calls := c\<rparr>)) = fst (get_default ext (w\<lparr>get_tts_calls := c'\<rparr>))"
  by (simp add: get_default_def new_SparkTTS_def Let_def split: option.splits)

lemma cache_wf_distinct:
  assumes "cache_wf w" and "tts_models (manager w) k = Some e"
      and "tts_models (manager w) k' = Some e'" and "k \<noteq> k'"
  shows "e \<noteq> e'"
  using assms unfolding cache_wf_def by blast

lemma cache_wf_bound:
  "cache_wf w \<Longrightarrow> tts_models (manager w) k = Some e \<Longrightarrow> engine_id e < length (spark_calls w)"
  unfolding cache_wf_def by blast

text \<open>
  Claim C9, as amended. Let an engine be cached under a voice id other than \<open>default\<close>, in
  a cache the process can have built, and let the id then be removed from the registry.
  A call of \<open>get_tts\<close> with that id does what a call without an id does: it never returns
  the engine cached for the id, and an engine it returns is the one stored under
  \<open>default\<close>. The engine cached for the id stays in the cache under the id, and every
  later call with the id returns the default engine again.
\<close>

theorem removed_voice_falls_back:
  assumes wf: "cache_wf w"
      and cached: "tts_models (manager w) voice_id = Some e"
      and nd: "voice_id \<noteq> ''default''"
  shows "get_voice (voice_config (manager (step ext0 (RemoveVoice voice_id) w))) voice_id = None
       \<and> fst (get_tts ext (Some voice_id) (step ext0 (RemoveVoice voice_id) w))
           = fst (get_tts ext None (step ext0 (RemoveVoice voice_id) w))
       \<and> fst (get_tts ext (Some voice_id) (step ext0 (RemoveVoice voice_id) w)) \<noteq> Inr e
       \<and> tts_models (manager (snd (get_tts ext (Some voice_id)
              (step ext0 (RemoveVoice voice_id) w)))) voice_id = Some e
       \<and> (\<forall>d. fst (get_tts ext (Some voice_id) (step ext0 (RemoveVoice voice_id) w)) = Inr d \<longrightarrow>
             tts_models (manager (snd (get_tts ext (Some voice_id)
                (step ext0 (RemoveVoice voice_id) w)))) ''default'' = Some d
             \<and> (\<forall>ext2. fst (get_tts ext2 (Some voice_id)
                   (snd (get_tts ext (Some voice_id) (step ext0 (RemoveVoice voice_id) w))))
                 = Inr d))"
proof -
  define w0 where "w0 = step ext0 (RemoveVoice voice_id) w"
  let ?w1 = "w0\<lparr>get_tts_calls := get_tts_calls w0 @ [Some voice_id]\<rparr>"
  let ?w2 = "w0\<lparr>get_tts_calls := get_tts_calls w0 @ [None]\<rparr>"
  obtain r w' where ret: "get_tts ext (Some voice_id) w0 = (r, w')"
    by (cases "get_tts ext (Some voice_id) w0")
  have gone: "get_voice (voice_config (manager w0)) voice_id = None"
    and same: "tts_models (manager w0) = tts_models (manager w)"
              "spark_calls w0 = spark_calls w"
    using step_RemoveVoice_effect [of ext0 voice_id w] by (simp_all add: w0_def)
  have unreg: "unregistered (voice_config (manager w0)) (Some voice_id)"
    using gone by (simp add: unregistered_def)
  from unreg ret have gd: "get_default ext ?w1 = (r, w')"
    by (simp add: get_tts_unregistered)
  have "get_tts ext (Some voice_id) w0 = get_default ext ?w1"
    using unreg by (rule get_tts_unregistered)
  moreover have "get_tts ext None w0 = get_default ext ?w2"
    by (rule get_tts_unregistered) (simp add: unregistered_def)
  ultimately have route: "fst (get_tts ext (Some voice_id) w0) = fst (get_tts ext None w0)"
    using get_default_log_irrelevant [where ext = ext and w = w0] by metis
  have kept: "tts_models (manager w') voice_id = Some e"
    using get_default_cases [OF gd] cached same nd by (auto simp: store_engine_def)
  have stored: "tts_models (manager w') ''default'' = Some d" if "r = Inr d" for d
    using get_default_cases [OF gd] that by (auto simp: store_engine_def)
  have differ: "d \<noteq> e" if "r = Inr d" for d
  proof (cases "tts_models (manager w) ''default''")
    case None
    with get_default_cases [OF gd] same that have "engine_id d = length (spark_calls w)"
      by auto
    moreover have "engine_id e < length (spark_calls w)"
      using wf cached by (rule cache_wf_bound)
    ultimately show ?thesis by auto
  next
    case (Some d0)
    with get_default_cases [OF gd] same that have "d = d0" by auto
    with wf Some cached nd show ?thesis
      using cache_wf_distinct [of w "''default''" d0 voice_id e] by auto
  qed
  have cfg: "voice_config (manager w') = voice_config (manager w0)"
    using get_tts_effect [OF ret] by simp
  have later: "fst (get_tts ext2 (Some voice_id) w') = Inr d" if "r = Inr d" for ext2 d
    using get_tts_default_hit [of w' "Some voice_id" d ext2] unreg stored [OF that] cfg by simp
  have never: "r \<noteq> Inr e"
    using differ by blast
  have "get_voice (voice_config (manager w0)) voice_id = None
       \<and> fst (get_tts ext (Some voice_id) w0) = fst (get_tts ext None w0)
       \<and> fst (get_tts ext (Some voice_id) w0) \<noteq> Inr e
       \<and> tts_models (manager (snd (get_tts ext (Some voice_id) w0))) voice_id = Some e
       \<and> (\<forall>d. fst (get_tts ext (Some voice_id) w0) = Inr d \<longrightarrow>
             tts_models (manager (snd (get_tts ext (Some voice_id) w0))) ''default'' = Some d
             \<and> (\<forall>ext2. fst (get_tts ext2 (Some voice_id) (snd (get_tts ext (Some voice_id) w0)))
                 = Inr d))"
    using gone route never kept stored later by (simp add: ret)
  then show ?thesis
    unfolding w0_def .
qed

theorem removed_voice_falls_back_witness:
  "cache_wf (snd (get_tts demo_ext (Some ''alice'') demo_world))
   \<and> tts_models (manager (snd (get_tts demo_ext (Some ''alice'') demo_world))) ''alice''
       = Some \<lparr>engine_id = 0, engine_model_dir = ''/models/alice'', engine_device = ''cpu''\<rparr>
   \<and> ''alice'' \<noteq> ''default''
   \<and> fst (get_tts demo_ext (Some ''alice'')
            (step demo_ext (RemoveVoice ''alice'') (snd (get_tts demo_ext (Some ''alice'') demo_world))))
       = Inr \<lparr>engine_id = 1, engine_model_dir = ''/app/pretrained_models/Spark-TTS-0.5B'',
              engine_device = ''cpu''\<rparr>
   \<and> tts_models (manager (snd (get_tts demo_ext (Some ''alice'')
            (step demo_ext (RemoveVoice ''alice'') (snd (get_tts demo_ext (Some ''alice'') demo_world))))))
         ''alice''
       = Some \<lparr>engine_id = 0, engine_model_dir = ''/models/alice'', engine_device = ''cpu''\<rparr>"
proof -
  let ?w = "snd (get_tts demo_ext (Some ''alice'') demo_world)"
  let ?e = "\<lparr>engine_id = 0, engine_model_dir = ''/models/alice'', engine_device = ''cpu''\<rparr>"
  let ?d = "\<lparr>engine_id = 1, engine_model_dir = ''/app/pretrained_models/Spark-TTS-0.5B'',
              engine_device = ''cpu''\<rparr>"
  let ?r = "get_tts demo_ext (Some ''alice'') (step demo_ext (RemoveVoice ''alice'') ?w)"
  have "cache_wf demo_world"
    by (simp add: cache_wf_def demo_defs)
  then have "cache_wf (run [(demo_ext, GetTts (Some ''alice''))] demo_world)"
    by (rule run_wf)
  then have h1: "cache_wf ?w" by simp
  have h2: "tts_models (manager ?w) ''alice'' = Some ?e"
    by (simp add: demo_defs cache_defs fs_defs)
  have h3: "''alice'' \<noteq> ''default''" by simp
  have h4f: "fst ?r = Inr ?d"
    by (simp add: demo_defs cache_defs registry_defs fs_defs)
  from removed_voice_falls_back [OF h1 h2 h3, of demo_ext demo_ext] h1 h2 h4f show ?thesis
    by simp
qed

text \<open>
  For the id \<open>default\<close> the claim as first stated fails: the engine of a registered voice
  of that name is cached under the very key of the fallback, so after the voice is
  removed a call with the id returns that still-cached engine.
\<close>

theorem removed_voice_falls_back_counterexample:
  "tts_models (manager (snd (get_tts demo_ext (Some ''default'') clash_world))) ''default''
     = Some \<lparr>engine_id = 0, engine_model_dir = ''/models/mine'', engine_device = ''cpu''\<rparr>
   \<and> get_voice (voice_config (manager
        (step demo_ext (RemoveVoice ''default'')
           (snd (get_tts demo_ext (Some ''default'') clash_world))))) ''default'' = None
   \<and> fst (get_tts demo_ext (Some ''default'')
        (step demo_ext (RemoveVoice ''default'')
           (snd (get_tts demo_ext (Some ''default'') clash_world))))
     = Inr \<lparr>engine_id = 0, engine_model_dir = ''/models/mine'', engine_device = ''cpu''\<rparr>"
  by (simp add: demo_defs cache_defs registry_defs fs_defs)

section \<open>The registry: round trip and removal\<close>

lemma writable_write_file:
  "writable f p \<Longrightarrow> \<exists>g. write_file f p c = Inr g"
  by (auto simp: writable_def write_file_def split: sum.splits)

lemma write_file_writable: "write_file f p c = Inr g \<Longrightarrow> writable f p"
  by (auto simp: writable_def write_file_def split: sum.splits if_splits)







section \<open>The request pipeline\<close>

lemmas request_defs = process_tts_request_def try_body_def run_inference_def logged_failure_def
  import_fallback_def sf_write_def voice_info_of_def error_log_path_def truncate_trace_def
  OSError_def

text \<open>
  Claim C1, as amended. The command line entry rejects a request for synthesis whose text
  is missing or empty: its body raises \<open>ValueError\<close> before it calls
  \<open>process_tts_request\<close>, and the process prints a structured failure with that message.
  The state is untouched: \<open>get_tts\<close> is not called, no constructor is called, the cache
  and the file system are as before.
\<close>

theorem empty_text_rejected:
  assumes "arg_action a = tts"
      and "arg_text a = None \<or> arg_text a = Some []"
  shows "main_body ext a w
           = (Inl (Exn ValueError ''--text argument is required for TTS action''), w)
       \<and> main ext a w
           = (\<lparr>success = False,
               message = Some (''Unexpected error: '' @
                               ''--text argument is required for TTS action''),
               file = None, voice = None,
               trace = Some (format_exc ext
                         (Exn ValueError ''--text argument is required for TTS action'')),
               log_file = None, voices_out = None\<rparr>, w)
       \<and> get_tts_calls (snd (main ext a w)) = get_tts_calls w
       \<and> spark_calls (snd (main ext a w)) = spark_calls w
       \<and> tts_models (manager (snd (main ext a w))) = tts_models (manager w)"
  using assms by (auto simp: main_def main_body_def)

theorem empty_text_rejected_witness:
  "arg_action \<lparr>arg_action = tts, arg_text = Some [], arg_voice_id = None,
               arg_custom_voice = None, arg_output = ''output.wav''\<rparr> = tts
   \<and> fst (main demo_ext \<lparr>arg_action = tts, arg_text = Some [], arg_voice_id = None,
               arg_custom_voice = None, arg_output = ''output.wav''\<rparr> demo_world)
       = \<lparr>success = False,
          message = Some ''Unexpected error: --text argument is required for TTS action'',
          file = None, voice = None,
          trace = Some ''Traceback (most recent call last): --text argument is required for TTS action'',
          log_file = None, voices_out = None\<rparr>
   \<and> get_tts_calls (snd (main demo_ext \<lparr>arg_action = tts, arg_text = Some [], arg_voice_id = None,
               arg_custom_voice = None, arg_output = ''output.wav''\<rparr> demo_world)) = []
   \<and> spark_calls (snd (main demo_ext \<lparr>arg_action = tts, arg_text = None, arg_voice_id = None,
               arg_custom_voice = None, arg_output = ''output.wav''\<rparr> demo_world)) = []"
proof -
  let ?a = "\<lparr>arg_action = tts, arg_text = Some [], arg_voice_id = None,
               arg_custom_voice = None, arg_output = ''output.wav''\<rparr>"
  let ?b = "\<lparr>arg_action = tts, arg_text = None, arg_voice_id = None,
               arg_custom_voice = None, arg_output = ''output.wav''\<rparr>"
  have h1: "arg_action ?a = tts" "arg_action ?b = tts" by simp_all
  have h2: "arg_text ?a = None \<or> arg_text ?a = Some []"
           "arg_text ?b = None \<or> arg_text ?b = Some []" by simp_all
  have l: "get_tts_calls demo_world = []" "spark_calls demo_world = []"
    by (simp_all add: demo_world_def)
  have t: "format_exc demo_ext (Exn ValueError ''--text argument is required for TTS action'')
           = ''Traceback (most recent call last): --text argument is required for TTS action''"
    by (simp add: demo_ext_def)
  from empty_text_rejected [OF h1(1) h2(1), of demo_ext demo_world]
       empty_text_rejected [OF h1(2) h2(2), of demo_ext demo_world] l t
  show ?thesis by simp
qed

text \<open>
  \<open>process_tts_request\<close> itself does not look at the text. Called with the empty string it
  resolves the engine (here it builds the default one), runs the inference and reports
  success, so the claim as first stated, about this function, fails.
\<close>

theorem empty_text_rejected_counterexample:
  "map_sum exn_kind_of success
     (fst (process_tts_request demo_ext [] None None ''output.wav'' demo_world)) = Inr True
   \<and> get_tts_calls (snd (process_tts_request demo_ext [] None None ''output.wav'' demo_world))
       = [None]
   \<and> spark_calls (snd (process_tts_request demo_ext [] None None ''output.wav'' demo_world))
       = [''/app/pretrained_models/Spark-TTS-0.5B'']
   \<and> tts_models (manager (snd (process_tts_request demo_ext [] None None ''output.wav''
                                   demo_world))) ''default''
       = Some \<lparr>engine_id = 0, engine_model_dir = ''/app/pretrained_models/Spark-TTS-0.5B'',
               engine_device = ''cpu''\<rparr>"
  by (simp add: demo_defs cache_defs request_defs fs_defs)

text \<open>
  Claim C4, as amended. When the engine integration is unavailable, the parent directory
  of the output path can be made and the output path can be opened for writing, every
  request gets the same answer: the 44-byte empty WAV file is written at the output
  path, and the result has \<open>success\<close> false, the message of the fallback, and \<open>file\<close> set
  to the string of the \<^verbatim>\<open>Path\<close> made from the output path. Nothing but the file system
  changes, and there nothing but the directory and the file.
\<close>

theorem integration_unavailable_fallback:
  assumes off: "\<not> SPARK_TTS_AVAILABLE ext"
      and mk: "mkdir_parents (fs w) (parent (Path output_path)) = (None, fsys1)"
      and wr: "writable fsys1 (path_str (Path output_path))"
  shows "fst (process_tts_request ext text voice_id custom_voice_path output_path w)
       = Inr \<lparr>success = False,
              message = Some (''Spark-TTS is not properly installed: '' @
                              ''Spark-TTS modules not available'' @
                              ''. Created an empty audio file as fallback.''),
              file = Some (Some (path_str (Path output_path))),
              voice = None, trace = None, log_file = None, voices_out = None\<rparr>
     \<and> snd (process_tts_request ext text voice_id custom_voice_path output_path w)
       = w\<lparr>fs := fs (snd (process_tts_request ext text voice_id custom_voice_path output_path w))\<rparr>
     \<and> write_file fsys1 (path_str (Path output_path)) (Bytes EMPTY_WAV)
       = Inr (fs (snd (process_tts_request ext text voice_id custom_voice_path output_path w)))
     \<and> stat (fs (snd (process_tts_request ext text voice_id custom_voice_path output_path w)))
          (path_str (Path output_path))
       = Some (File (Bytes EMPTY_WAV))"
proof -
  from writable_write_file [OF wr] obtain fsys2 where
    w2: "write_file fsys1 (path_str (Path output_path)) (Bytes EMPTY_WAV) = Inr fsys2"
    by blast
  have p: "process_tts_request ext text voice_id custom_voice_path output_path w
       = (Inr \<lparr>success = False,
              message = Some (''Spark-TTS is not properly installed: '' @
                              ''Spark-TTS modules not available'' @
                              ''. Created an empty audio file as fallback.''),
              file = Some (Some (path_str (Path output_path))),
              voice = None, trace = None, log_file = None, voices_out = None\<rparr>,
          w\<lparr>fs := fsys2\<rparr>)"
    using off mk w2
    by (simp add: process_tts_request_def try_body_def import_fallback_def Let_def)
  show ?thesis
    using w2 write_file_read [OF w2] by (simp add: p)
qed

theorem integration_unavailable_fallback_witness:
  "\<not> SPARK_TTS_AVAILABLE demo_ext_off
   \<and> fst (mkdir_parents (fs demo_world) (parent (Path ''./out/speech.wav''))) = None
   \<and> writable (snd (mkdir_parents (fs demo_world) (parent (Path ''./out/speech.wav''))))
        (path_str (Path ''./out/speech.wav''))
   \<and> fst (process_tts_request demo_ext_off ''hello'' (Some ''alice'') None ''./out/speech.wav''
            demo_world)
      = Inr \<lparr>success = False,
         message = Some ''Spark-TTS is not properly installed: Spark-TTS modules not available. Created an empty audio file as fallback.'',
         file = Some (Some ''out/speech.wav''),
         voice = None, trace = None, log_file = None, voices_out = None\<rparr>
   \<and> stat (fs (snd (process_tts_request demo_ext_off ''hello'' (Some ''alice'') None
                       ''./out/speech.wav'' demo_world))) ''/app/out/speech.wav''
      = Some (File (Bytes EMPTY_WAV))"
proof -
  let ?m = "mkdir_parents (fs demo_world) (parent (Path ''./out/speech.wav''))"
  have h1: "\<not> SPARK_TTS_AVAILABLE demo_ext_off"
    by (simp add: demo_ext_off_def demo_ext_def)
  have h2f: "fst ?m = None"
    by (simp add: demo_defs fs_defs)
  then have h2: "?m = (None, snd ?m)"
    by (simp add: prod_eq_iff)
  have h3: "writable (snd ?m) (path_str (Path ''./out/speech.wav''))"
    by (simp add: writable_def demo_defs fs_defs)
  have n: "path_str (Path ''./out/speech.wav'') = ''out/speech.wav''"
    by (simp add: fs_defs)
  have a: "stat (fs (snd (process_tts_request demo_ext_off ''hello'' (Some ''alice'') None
                       ''./out/speech.wav'' demo_world))) ''/app/out/speech.wav''
      = Some (File (Bytes EMPTY_WAV))"
    by (simp add: demo_defs request_defs fs_defs)
  from integration_unavailable_fallback [OF h1 h2 h3, of "''hello''" "Some ''alice''" None]
       h1 h2f h3 n a
  show ?thesis by simp
qed

text \<open>
  The claim as first stated fails when the output path names a directory: the handler
  cannot open it, the exception leaves the function, and there is neither a result nor a
  placeholder.
\<close>

theorem integration_unavailable_fallback_counterexample:
  "\<not> SPARK_TTS_AVAILABLE demo_ext_off
   \<and> fst (process_tts_request demo_ext_off ''hello'' None None ''/models'' demo_world)
      = Inl (Exn IsADirectoryError ''[Errno] /models'')
   \<and> stat (fs (snd (process_tts_request demo_ext_off ''hello'' None None ''/models'' demo_world)))
        ''/models'' = Some Dir"
  by (simp add: demo_defs request_defs fs_defs)

text \<open>
  Claim C10, as amended. The parent directory of the output path is made first. When
  that fails, the exception leaves \<open>process_tts_request\<close> at once: nothing is validated,
  no engine is resolved, and only what the failed call had made is on the disk. When it
  succeeds, the parent is a directory from then on, however the request ends, be it with
  a result or with an exception; and a call on a file system that already has the
  directory gives the same outcome and the same state, so every later check sees it. In
  either case no directory that was there is lost.
\<close>

theorem output_directory_created_first:
  "(\<forall>err fsys1.
      mkdir_parents (fs w) (parent (Path output_path)) = (Some err, fsys1) \<longrightarrow>
        process_tts_request ext text voice_id custom_voice_path output_path w
          = (Inl (OSError ext err), w\<lparr>fs := fsys1\<rparr>))
   \<and> (\<forall>fsys1.
      mkdir_parents (fs w) (parent (Path output_path)) = (None, fsys1) \<longrightarrow>
        is_dir fsys1 (path_str (parent (Path output_path)))
        \<and> is_dir (fs (snd (process_tts_request ext text voice_id custom_voice_path output_path w)))
             (path_str (parent (Path output_path)))
        \<and> process_tts_request ext text voice_id custom_voice_path output_path w
            = process_tts_request ext text voice_id custom_voice_path output_path
                (w\<lparr>fs := fsys1\<rparr>))
   \<and> dirs_kept (fs w)
        (fs (snd (process_tts_request ext text voice_id custom_voice_path output_path w)))"
proof -
  let ?P = "parent (Path output_path)"
  let ?r = "process_tts_request ext text voice_id custom_voice_path output_path w"
  have fail: "?r = (Inl (OSError ext err), w\<lparr>fs := fsys1\<rparr>)"
    if "mkdir_parents (fs w) ?P = (Some err, fsys1)" for err fsys1
    using that by (simp add: process_tts_request_def Let_def)
  have made: "is_dir fsys1 (path_str ?P)"
    if "mkdir_parents (fs w) ?P = (None, fsys1)" for fsys1
    using mkdir_parents_effect [OF that] by simp
  have same: "?r = process_tts_request ext text voice_id custom_voice_path output_path
                     (w\<lparr>fs := fsys1\<rparr>)"
    if "mkdir_parents (fs w) ?P = (None, fsys1)" for fsys1
    using that mkdir_parents_idem [OF made [OF that]]
    by (simp add: process_tts_request_def Let_def)
  have kept: "dirs_kept (fs w) (fs (snd ?r))"
    using process_tts_request_effect [of ext "text" voice_id custom_voice_path output_path w
        "fst ?r" "snd ?r"]
    by simp
  have stays: "is_dir (fs (snd ?r)) (path_str ?P)"
    if "mkdir_parents (fs w) ?P = (None, fsys1)" for fsys1
  proof -
    let ?r1 = "process_tts_request ext text voice_id custom_voice_path output_path
                 (w\<lparr>fs := fsys1\<rparr>)"
    have "dirs_kept fsys1 (fs (snd ?r1))"
      using process_tts_request_effect [of ext "text" voice_id custom_voice_path output_path
          "w\<lparr>fs := fsys1\<rparr>" "fst ?r1" "snd ?r1"]
      by simp
    then have "is_dir (fs (snd ?r1)) (path_str ?P)"
      using made [OF that] by (rule is_dir_kept)
    then show ?thesis
      using same [OF that] by simp
  qed
  from fail made stays same kept show ?thesis
    by blast
qed

theorem output_directory_created_first_witness:
  "\<not> is_dir (fs demo_world) ''newdir''
   \<and> path_str (parent (Path ''newdir/a.wav'')) = ''newdir''
   \<and> fst (mkdir_parents (fs demo_world) (parent (Path ''newdir/a.wav''))) = None
   \<and> map_sum exn_kind_of success
        (fst (process_tts_request demo_ext_off ''hi'' None None ''newdir/a.wav'' demo_world))
      = Inr False
   \<and> is_dir (fs (snd (process_tts_request demo_ext_off ''hi'' None None ''newdir/a.wav''
                         demo_world))) ''newdir''
   \<and> map_sum exn_kind_of success
        (fst (process_tts_request demo_ext ''hi'' (Some ''ghost'') None ''newdir/a.wav''
                demo_world))
      = Inr False
   \<and> is_dir (fs (snd (process_tts_request demo_ext ''hi'' (Some ''ghost'') None ''newdir/a.wav''
                         demo_world))) ''newdir''
   \<and> map_sum exn_kind_of success
        (fst (process_tts_request demo_ext ''hi'' None (Some ''/voices/missing.wav'')
                ''newdir/a.wav'' demo_world))
      = Inr False
   \<and> is_dir (fs (snd (process_tts_request demo_ext ''hi'' None (Some ''/voices/missing.wav'')
                         ''newdir/a.wav'' demo_world))) ''newdir''"
proof -
  let ?m = "mkdir_parents (fs demo_world) (parent (Path ''newdir/a.wav''))"
  have p: "path_str (parent (Path ''newdir/a.wav'')) = ''newdir''"
    by (simp add: fs_defs)
  have a: "\<not> is_dir (fs demo_world) ''newdir''"
    by (simp add: demo_defs fs_defs)
  have mf: "fst ?m = None"
    by (simp add: demo_defs fs_defs)
  then have m: "?m = (None, snd ?m)"
    by (simp add: prod_eq_iff)
  have s1: "map_sum exn_kind_of success
        (fst (process_tts_request demo_ext_off ''hi'' None None ''newdir/a.wav'' demo_world))
      = Inr False"
    by (simp add: demo_defs cache_defs request_defs fs_defs)
  have s2: "map_sum exn_kind_of success
        (fst (process_tts_request demo_ext ''hi'' (Some ''ghost'') None ''newdir/a.wav''
                demo_world))
      = Inr False"
    by (simp add: demo_defs cache_defs request_defs fs_defs)
  have s3: "map_sum exn_kind_of success
        (fst (process_tts_request demo_ext ''hi'' None (Some ''/voices/missing.wav'')
                ''newdir/a.wav'' demo_world))
      = Inr False"
    by (simp add: demo_defs cache_defs request_defs fs_defs)
  have d: "is_dir (fs (snd (process_tts_request ext ''hi'' v c ''newdir/a.wav'' demo_world)))
             (path_str (parent (Path ''newdir/a.wav'')))" for ext v c
    using output_directory_created_first [of demo_world "''newdir/a.wav''" ext "''hi''" v c] m
    by blast
  from d [of demo_ext_off None None] d [of demo_ext "Some ''ghost''" None]
       d [of demo_ext None "Some ''/voices/missing.wav''"] p a mf s1 s2 s3
  show ?thesis by simp
qed

text \<open>
  The claim as first stated fails when the parent of the output path is a regular file:
  the directory cannot be made, the call ends with \<open>FileExistsError\<close>, and no directory is
  there afterwards.
\<close>

theorem output_directory_created_first_counterexample:
  "stat (fs blocked_world) ''blocker'' = Some (File (Text ''x''))
   \<and> fst (process_tts_request demo_ext ''hi'' None None ''blocker/a.wav'' blocked_world)
       = Inl (Exn FileExistsError ''[Errno] blocker'')
   \<and> \<not> is_dir (fs (snd (process_tts_request demo_ext ''hi'' None None ''blocker/a.wav''
                           blocked_world))) ''blocker''
   \<and> get_tts_calls (snd (process_tts_request demo_ext ''hi'' None None ''blocker/a.wav''
                           blocked_world)) = []"
  by (simp add: demo_defs request_defs fs_defs Let_def)




end
